theory Spec2Isabelle
  imports Complex_Main "HOL-Library.Word" "HOL-Library.Monad_Syntax"
begin

unbundle bit_operations_syntax

section \<open>Types and values (include/types.hpp)\<close>

text \<open>
  The engine's scalar type tags, the tagged value union and the execution context.
  A C++ \<^verbatim>\<open>double\<close> is modelled by a real number: arithmetic is exact, and the
  non-finite values (NaN, infinities) and the rounding of IEEE-754 are outside the model.
  The fixed-width integers of the value union are machine words.
\<close>

datatype DataType =
  INT32 | INT64 | DOUBLE | FLOAT | STRING
  | INT32_LIST | INT64_LIST | DOUBLE_LIST | STRING_LIST | UNKNOWN

datatype ValueVariant =
  VInt32 "32 word"
  | VInt64 "64 word"
  | VDouble real
  | VFloat real
  | VString string
  | VInt32List "32 word list"
  | VInt64List "64 word list"
  | VDoubleList "real list"
  | VStringList "string list"

text \<open>The type argument \<^verbatim>\<open>T\<close> of \<^verbatim>\<open>std::get<T>\<close>: one of the nine alternatives.\<close>

datatype alternative =
  T_int32 | T_int64 | T_double | T_float | T_string
  | T_int32_list | T_int64_list | T_double_list | T_string_list

fun alternative_of :: "ValueVariant \<Rightarrow> alternative" where
  "alternative_of (VInt32 _) = T_int32"
| "alternative_of (VInt64 _) = T_int64"
| "alternative_of (VDouble _) = T_double"
| "alternative_of (VFloat _) = T_float"
| "alternative_of (VString _) = T_string"
| "alternative_of (VInt32List _) = T_int32_list"
| "alternative_of (VInt64List _) = T_int64_list"
| "alternative_of (VDoubleList _) = T_double_list"
| "alternative_of (VStringList _) = T_string_list"

text \<open>
  Exceptions and failures as values. \<open>RuntimeError\<close> carries the message of a
  \<^verbatim>\<open>std::runtime_error\<close>; \<open>BadVariantAccess\<close> is \<^verbatim>\<open>std::bad_variant_access\<close>;
  \<open>JsonTypeError\<close> is the JSON library's type error; \<open>UnknownOperator\<close> is the
  interpreter's dispatch failure; \<open>UndefinedBehaviour\<close> marks an execution the C++
  standard gives no meaning (an index past the end of a vector, a conversion of a
  floating value that does not fit the integer type).
\<close>

datatype error =
  RuntimeError string
  | BadVariantAccess
  | JsonTypeError
  | UnknownOperator string
  | UndefinedBehaviour

fun data_type_to_string :: "DataType \<Rightarrow> string" where
  "data_type_to_string INT32 = ''int32''"
| "data_type_to_string INT64 = ''int64''"
| "data_type_to_string DOUBLE = ''double''"
| "data_type_to_string FLOAT = ''float''"
| "data_type_to_string STRING = ''string''"
| "data_type_to_string INT32_LIST = ''int32_list''"
| "data_type_to_string INT64_LIST = ''int64_list''"
| "data_type_to_string DOUBLE_LIST = ''double_list''"
| "data_type_to_string STRING_LIST = ''string_list''"
| "data_type_to_string UNKNOWN = ''unknown''"

definition string_to_data_type :: "string \<Rightarrow> DataType" where
  "string_to_data_type str =
     (if str = ''int32'' then INT32
      else if str = ''int64'' then INT64
      else if str = ''double'' then DOUBLE
      else if str = ''float'' then FLOAT
      else if str = ''string'' then STRING
      else if str = ''int32_list'' then INT32_LIST
      else if str = ''int64_list'' then INT64_LIST
      else if str = ''double_list'' then DOUBLE_LIST
      else if str = ''string_list'' then STRING_LIST
      else UNKNOWN)"

fun get_cpp_type_name :: "DataType \<Rightarrow> string" where
  "get_cpp_type_name INT32 = ''int32_t''"
| "get_cpp_type_name INT64 = ''int64_t''"
| "get_cpp_type_name DOUBLE = ''double''"
| "get_cpp_type_name FLOAT = ''float''"
| "get_cpp_type_name STRING = ''std::string''"
| "get_cpp_type_name INT32_LIST = ''std::vector<int32_t>''"
| "get_cpp_type_name INT64_LIST = ''std::vector<int64_t>''"
| "get_cpp_type_name DOUBLE_LIST = ''std::vector<double>''"
| "get_cpp_type_name STRING_LIST = ''std::vector<std::string>''"
| "get_cpp_type_name UNKNOWN = ''void''"

subsection \<open>Execution context\<close>

record Variable =
  var_name :: string
  var_type :: DataType
  var_value :: ValueVariant

record ExecutionContext =
  ctx_variables :: "string \<rightharpoonup> Variable"
  ctx_metadata :: "string \<rightharpoonup> string"

definition empty_context :: ExecutionContext where
  "empty_context = \<lparr>ctx_variables = Map.empty, ctx_metadata = Map.empty\<rparr>"

definition set_variable ::
  "ExecutionContext \<Rightarrow> string \<Rightarrow> DataType \<Rightarrow> ValueVariant \<Rightarrow> ExecutionContext" where
  "set_variable ctx nm ty v =
     ctx\<lparr>ctx_variables :=
       (ctx_variables ctx)(nm \<mapsto> \<lparr>var_name = nm, var_type = ty, var_value = v\<rparr>)\<rparr>"

text \<open>\<^verbatim>\<open>Variable::get<T>\<close> is \<^verbatim>\<open>std::get<T>(value)\<close>: it throws unless the variant holds \<open>T\<close>.\<close>

definition std_get :: "alternative \<Rightarrow> ValueVariant \<Rightarrow> error + ValueVariant" where
  "std_get T v = (if alternative_of v = T then Inr v else Inl BadVariantAccess)"

definition get :: "ExecutionContext \<Rightarrow> alternative \<Rightarrow> string \<Rightarrow> error + ValueVariant" where
  "get ctx T nm =
     (case ctx_variables ctx nm of
        None \<Rightarrow> Inl (RuntimeError (''Variable not found: '' @ nm))
      | Some var \<Rightarrow> std_get T (var_value var))"

definition has_variable :: "ExecutionContext \<Rightarrow> string \<Rightarrow> bool" where
  "has_variable ctx nm = (ctx_variables ctx nm \<noteq> None)"

definition clear :: "ExecutionContext \<Rightarrow> ExecutionContext" where
  "clear ctx = ctx\<lparr>ctx_variables := Map.empty\<rparr>"

text \<open>A history of \<^verbatim>\<open>set_variable\<close> calls, applied in order.\<close>

fun set_variables ::
  "ExecutionContext \<Rightarrow> (string \<times> DataType \<times> ValueVariant) list \<Rightarrow> ExecutionContext" where
  "set_variables ctx [] = ctx"
| "set_variables ctx ((nm, ty, v) # rest) = set_variables (set_variable ctx nm ty v) rest"

section \<open>Pipeline intermediate representation (include/types.hpp)\<close>

text \<open>
  The structs \<^verbatim>\<open>Arg\<close>, \<^verbatim>\<open>OpCall\<close>, \<^verbatim>\<open>PipelineConfig::IOField\<close> and
  \<^verbatim>\<open>PipelineConfig\<close>. Field names that several structs share carry a prefix here
  (\<^verbatim>\<open>Arg::value\<close> is \<open>arg_value\<close>, \<^verbatim>\<open>IOField::name\<close> is \<open>io_name\<close>, and so on). The
  option map of a call is the list of its entries.
\<close>

datatype ArgType = VARIABLE | LITERAL | EXPRESSION

record Arg =
  arg_value :: string
  arg_type :: ArgType
  arg_data_type :: DataType

record OpCall =
  op_name :: string
  output_var :: string
  args :: "Arg list"
  options :: "(string \<times> string) list"

record IOField =
  io_name :: string
  io_type :: DataType
  io_required :: bool

record PipelineConfig =
  name :: string
  steps :: "OpCall list"
  inputs :: "IOField list"
  outputs :: "IOField list"
  variables :: "IOField list"
  fingerprint :: string

definition Arg_variable :: "string \<Rightarrow> DataType \<Rightarrow> Arg" where
  "Arg_variable nm ty = \<lparr>arg_value = nm, arg_type = VARIABLE, arg_data_type = ty\<rparr>"

definition Arg_literal :: "string \<Rightarrow> DataType \<Rightarrow> Arg" where
  "Arg_literal val ty = \<lparr>arg_value = val, arg_type = LITERAL, arg_data_type = ty\<rparr>"

section \<open>Identifier sanitisation and the entry symbol\<close>

text \<open>
  \<^verbatim>\<open>make_valid_identifier\<close> exists in three identical copies (code generator, pipeline,
  loader). The character classes are those of the C locale; a byte above 127 counts as
  neither a digit nor a letter. \<open>entry_symbol\<close> is the name
  \<^verbatim>\<open>generate_export_function\<close> writes after \<^verbatim>\<open>bool\<close> and the name the loaders look up.

  \<open>sanitise_as_specified\<close> follows the words of the specification instead: every
  character that is neither alphanumeric nor an underscore becomes an underscore, and
  \<^verbatim>\<open>p_\<close> is put in front when the first character is a digit.
\<close>

definition isdigit :: "char \<Rightarrow> bool" where
  "isdigit c = (c \<in> set ''0123456789'')"

definition isalpha :: "char \<Rightarrow> bool" where
  "isalpha c = (c \<in> set ''abcdefghijklmnopqrstuvwxyzABCDEFGHIJKLMNOPQRSTUVWXYZ'')"

definition isalnum :: "char \<Rightarrow> bool" where
  "isalnum c = (isalpha c \<or> isdigit c)"

definition make_valid_identifier :: "string \<Rightarrow> string" where
  "make_valid_identifier str =
     (if str = [] then ''p_invalid''
      else
        let result = (if isdigit (hd str) then ''p_'' @ str else str)
        in map (\<lambda>c. if \<not> isalnum c \<and> c \<noteq> CHR ''_'' then CHR ''_'' else c) result)"

definition entry_symbol :: "string \<Rightarrow> string" where
  "entry_symbol fp = ''pipeline_execute_'' @ make_valid_identifier fp"

definition sanitise_as_specified :: "string \<Rightarrow> string" where
  "sanitise_as_specified str =
     (if str \<noteq> [] \<and> isdigit (hd str) then ''p_'' else [])
     @ map (\<lambda>c. if isalnum c \<or> c = CHR ''_'' then c else CHR ''_'') str"

section \<open>Fingerprint (PipelineConfig::compute_fingerprint)\<close>

text \<open>
  \<open>fingerprint_text\<close> is the text the function writes to its stream: the name, the
  inputs as \<^verbatim>\<open>name:type,\<close> and the steps as \<^verbatim>\<open>op(arg,...)->out;\<close>, with \<^verbatim>\<open>|\<close>
  between the three parts. The hash \<^verbatim>\<open>std::hash<std::string>\<close> is a parameter, with a
  64-bit \<^verbatim>\<open>size_t\<close>; \<open>to_hex\<close> is what \<^verbatim>\<open>std::hex\<close> prints for it (lowercase, no
  leading zeros). The function stores the fingerprint in the configuration and returns
  it: the model returns both.

  \<open>fingerprint_domain\<close> follows the words of the specification: the fields it names as
  the domain of the fingerprint.
\<close>

fun join_args :: "string list \<Rightarrow> string" where
  "join_args [] = []"
| "join_args [a] = a"
| "join_args (a # b # rest) = a @ '','' @ join_args (b # rest)"

definition input_text :: "IOField \<Rightarrow> string" where
  "input_text input = io_name input @ '':'' @ data_type_to_string (io_type input) @ '',''"

definition step_text :: "OpCall \<Rightarrow> string" where
  "step_text step =
     op_name step @ ''('' @ join_args (map arg_value (args step)) @ '')->'' @ output_var step @ '';''"

definition fingerprint_text :: "PipelineConfig \<Rightarrow> string" where
  "fingerprint_text config =
     name config @ ''|'' @ concat (map input_text (inputs config)) @ ''|''
       @ concat (map step_text (steps config))"

definition hex_digit :: "nat \<Rightarrow> char" where
  "hex_digit d = ''0123456789abcdef'' ! d"

function to_hex :: "nat \<Rightarrow> string" where
  "to_hex n = (if n < 16 then [hex_digit n] else to_hex (n div 16) @ [hex_digit (n mod 16)])"
  by pat_completeness auto
termination
  by (relation "measure id") auto

declare to_hex.simps [simp del]

definition compute_fingerprint ::
  "(string \<Rightarrow> 64 word) \<Rightarrow> PipelineConfig \<Rightarrow> string \<times> PipelineConfig" where
  "compute_fingerprint hasher config =
     (let str = fingerprint_text config;
          hash = hasher str;
          fp = to_hex (unat hash)
      in (fp, config\<lparr>fingerprint := fp\<rparr>))"

definition fingerprint_domain ::
  "PipelineConfig \<Rightarrow> string \<times> (string \<times> DataType) list \<times> (string \<times> string list \<times> string) list" where
  "fingerprint_domain config =
     (name config,
      map (\<lambda>input. (io_name input, io_type input)) (inputs config),
      map (\<lambda>step. (op_name step, map arg_value (args step), output_var step)) (steps config))"

text \<open>
  The strings \<^verbatim>\<open>compute_fingerprint\<close> can return: non-empty, lowercase hexadecimal.
\<close>

definition hex_chars :: "char set" where
  "hex_chars = set ''0123456789abcdef''"

definition is_hex_string :: "string \<Rightarrow> bool" where
  "is_hex_string s = (s \<noteq> [] \<and> set s \<subseteq> hex_chars)"

text \<open>
  The characters \<^verbatim>\<open>compute_fingerprint\<close> writes between the fields, and the configurations
  none of whose names, operator names, argument texts and output variables contains one
  (and whose argument texts are not empty).
\<close>

definition separators :: "char set" where
  "separators = set ''|:,();''"

definition plain :: "string \<Rightarrow> bool" where
  "plain s = (set s \<inter> separators = {})"

definition separator_free :: "PipelineConfig \<Rightarrow> bool" where
  "separator_free config =
     (plain (name config)
      \<and> list_all (\<lambda>input. plain (io_name input)) (inputs config)
      \<and> list_all (\<lambda>step. plain (op_name step) \<and> plain (output_var step)
            \<and> list_all (\<lambda>a. arg_value a \<noteq> [] \<and> plain (arg_value a)) (args step))
          (steps config))"

text \<open>
  Example configurations. The first two differ in the argument list of their step
  (two arguments \<open>a\<close>, \<open>b\<close> against the single argument \<open>a,b\<close>); the third agrees
  with the first on every field the fingerprint reads and differs in the others; the
  fourth differs from the first in the operator name.
\<close>

definition config_two_args :: PipelineConfig where
  "config_two_args =
     \<lparr>name = ''p'',
      steps = [\<lparr>op_name = ''add'', output_var = ''y'',
                args = [Arg_variable ''a'' DOUBLE, Arg_variable ''b'' DOUBLE], options = []\<rparr>],
      inputs = [], outputs = [], variables = [], fingerprint = []\<rparr>"

definition config_comma_arg :: PipelineConfig where
  "config_comma_arg =
     \<lparr>name = ''p'',
      steps = [\<lparr>op_name = ''add'', output_var = ''y'',
                args = [Arg_literal ''a,b'' STRING], options = []\<rparr>],
      inputs = [], outputs = [], variables = [], fingerprint = []\<rparr>"

definition config_other_tags :: PipelineConfig where
  "config_other_tags =
     \<lparr>name = ''p'',
      steps = [\<lparr>op_name = ''add'', output_var = ''y'',
                args = [Arg_literal ''a'' INT32, Arg_literal ''b'' INT64],
                options = [(''k'', ''v'')]\<rparr>],
      inputs = [],
      outputs = [\<lparr>io_name = ''y'', io_type = DOUBLE, io_required = True\<rparr>],
      variables = [\<lparr>io_name = ''y'', io_type = DOUBLE, io_required = False\<rparr>],
      fingerprint = ''stale''\<rparr>"

definition config_sub :: PipelineConfig where
  "config_sub =
     \<lparr>name = ''p'',
      steps = [\<lparr>op_name = ''sub'', output_var = ''y'',
                args = [Arg_variable ''a'' DOUBLE, Arg_variable ''b'' DOUBLE], options = []\<rparr>],
      inputs = [], outputs = [], variables = [], fingerprint = []\<rparr>"

section \<open>Operator catalog (OperatorRegistry of the code generator)\<close>

text \<open>
  The registry is an unordered map filled by \<^verbatim>\<open>register_all_operators\<close>, one
  \<^verbatim>\<open>operators_[config_name] = meta\<close> per line, in the order of the source.
\<close>

record OperatorMetadata =
  config_name :: string
  function_name :: string
  return_type :: DataType
  param_count :: int
  needs_template :: bool
  default_template :: string

definition register_operator ::
  "(string \<rightharpoonup> OperatorMetadata) \<Rightarrow> string \<Rightarrow> string \<Rightarrow> DataType \<Rightarrow> int \<Rightarrow> bool \<Rightarrow> string
     \<Rightarrow> (string \<rightharpoonup> OperatorMetadata)" where
  "register_operator operators cname fname rtype n templ dflt =
     operators(cname \<mapsto>
       \<lparr>config_name = cname, function_name = fname, return_type = rtype,
        param_count = n, needs_template = templ, default_template = dflt\<rparr>)"

definition register_all_operators :: "string \<rightharpoonup> OperatorMetadata" where
  "register_all_operators =
     fold (\<lambda>(cname, fname, rtype, n, templ, dflt) operators.
             register_operator operators cname fname rtype n templ dflt)
       [(''get_sign'', ''get_sign'', INT32, 1, False, []),
        (''price_diff'', ''price_diff'', DOUBLE, 2, False, []),
        (''avg_avg_log'', ''avg_avg_log'', INT64, 5, False, []),
        (''direct_output_int32'', ''direct_output_int32'', INT32, 1, True, ''int32_t''),
        (''direct_output_int64'', ''direct_output_int64'', INT64, 1, True, ''int64_t''),
        (''direct_output_double'', ''direct_output_double'', DOUBLE, 1, True, ''double''),
        (''direct_output_string'', ''direct_output_string'', STRING, 1, True, ''double''),
        (''len'', ''len'', INT64, 1, False, []),
        (''list_to_string'', ''list_to_string'', STRING, 2, False, []),
        (''catein_list_cross'', ''catein_list_cross'', INT32, 2, False, []),
        (''catein_list_cross_count'', ''catein_list_cross_count'', INT32, 2, False, []),
        (''add'', ''add_op'', DOUBLE, 2, True, ''double''),
        (''sub'', ''sub_op'', DOUBLE, 2, True, ''double''),
        (''mul'', ''mul_op'', DOUBLE, 2, True, ''double''),
        (''div'', ''div_op'', DOUBLE, 2, True, ''double''),
        (''if_else'', ''if_else'', DOUBLE, 3, False, []),
        (''max'', ''max_op'', DOUBLE, 2, True, ''double''),
        (''min'', ''min_op'', DOUBLE, 2, True, ''double''),
        (''abs'', ''abs_op'', DOUBLE, 1, True, ''double''),
        (''square'', ''square_op'', DOUBLE, 1, True, ''double''),
        (''sqrt'', ''sqrt_op'', DOUBLE, 1, True, ''double''),
        (''floor'', ''floor_op'', INT32, 1, True, ''double''),
        (''ceil'', ''ceil_op'', INT32, 1, True, ''double''),
        (''percent'', ''percent_op'', DOUBLE, 2, False, []),
        (''moving_average'', ''moving_average'', DOUBLE, 2, False, []),
        (''vector_sum'', ''vector_sum'', DOUBLE, 1, False, []),
        (''vector_avg'', ''vector_avg'', DOUBLE, 1, False, [])]
       Map.empty"

definition get_operator :: "string \<Rightarrow> OperatorMetadata option" where
  "get_operator cname = register_all_operators cname"

definition has_operator :: "string \<Rightarrow> bool" where
  "has_operator cname = (register_all_operators cname \<noteq> None)"

section \<open>Configuration validation (JsonConfigParser::validate)\<close>

text \<open>
  The validator checks the pipeline name and, step by step, the operator name and the
  output variable. The set \<^verbatim>\<open>defined_vars\<close> it fills is never read, so it is not part of
  the result and is left out.
\<close>

fun validate_steps :: "OpCall list \<Rightarrow> bool" where
  "validate_steps [] = True"
| "validate_steps (step # rest) =
     (if op_name step = [] then False
      else if output_var step = [] then False
      else validate_steps rest)"

definition validate :: "PipelineConfig \<Rightarrow> bool" where
  "validate config = (if name config = [] then False else validate_steps (steps config))"

definition config_add_one_arg :: PipelineConfig where
  "config_add_one_arg =
     \<lparr>name = ''p'',
      steps = [\<lparr>op_name = ''add'', output_var = ''y'',
                args = [Arg_variable ''x'' DOUBLE], options = []\<rparr>],
      inputs = [\<lparr>io_name = ''x'', io_type = DOUBLE, io_required = True\<rparr>],
      outputs = [], variables = [], fingerprint = []\<rparr>"

section \<open>Compile cache (CompilationCache, JITCompiler::get_so_path)\<close>

text \<open>
  The file system is a parameter: \<open>fs path\<close> is the size \<^verbatim>\<open>stat\<close> reports for the path,
  or \<open>None\<close> when \<^verbatim>\<open>stat\<close> fails. \<^verbatim>\<open>file_exists\<close> and \<^verbatim>\<open>file_size\<close> are the two
  helpers of \<^verbatim>\<open>Compiler\<close> built on it; the variables named \<^verbatim>\<open>src_time\<close> and
  \<^verbatim>\<open>so_time\<close> hold file sizes, as in the source.
\<close>

record CacheEntry =
  ce_fingerprint :: string
  source_path :: string
  so_path :: string
  compile_time :: nat

type_synonym filesystem = "string \<Rightarrow> nat option"

definition file_exists :: "filesystem \<Rightarrow> string \<Rightarrow> bool" where
  "file_exists fs path = (fs path \<noteq> None)"

definition file_size :: "filesystem \<Rightarrow> string \<Rightarrow> int" where
  "file_size fs path = (case fs path of None \<Rightarrow> - 1 | Some n \<Rightarrow> int n)"

definition is_valid :: "filesystem \<Rightarrow> (string \<rightharpoonup> CacheEntry) \<Rightarrow> string \<Rightarrow> bool" where
  "is_valid fs cache fp =
     (case cache fp of
        None \<Rightarrow> False
      | Some entry \<Rightarrow>
          if \<not> file_exists fs (so_path entry) then False
          else
            let src_time = file_size fs (source_path entry);
                so_time = file_size fs (so_path entry)
            in if src_time < 0 \<or> so_time < 0 then False else True)"

definition cache_add :: "(string \<rightharpoonup> CacheEntry) \<Rightarrow> string \<Rightarrow> CacheEntry \<Rightarrow> (string \<rightharpoonup> CacheEntry)" where
  "cache_add cache fp entry = cache(fp \<mapsto> entry)"

definition cache_get :: "(string \<rightharpoonup> CacheEntry) \<Rightarrow> string \<Rightarrow> CacheEntry option" where
  "cache_get cache fp = cache fp"

definition get_so_path :: "filesystem \<Rightarrow> (string \<rightharpoonup> CacheEntry) \<Rightarrow> string \<Rightarrow> string option" where
  "get_so_path fs cache fp =
     (case cache_get cache fp of
        Some entry \<Rightarrow> if file_exists fs (so_path entry) then Some (so_path entry) else None
      | None \<Rightarrow> None)"

definition example_entry :: CacheEntry where
  "example_entry =
     \<lparr>ce_fingerprint = ''ab12'', source_path = ''./generated/libpipeline_ab12.so.cpp'',
      so_path = ''./generated/libpipeline_ab12.so'', compile_time = 0\<rparr>"

definition fs_artifact_only :: filesystem where
  "fs_artifact_only = [''./generated/libpipeline_ab12.so'' \<mapsto> 16384]"

definition fs_artifact_and_source :: filesystem where
  "fs_artifact_and_source =
     [''./generated/libpipeline_ab12.so'' \<mapsto> 16384,
      ''./generated/libpipeline_ab12.so.cpp'' \<mapsto> 2048]"

section \<open>Operator library (ops.hpp), at the scalar type double\<close>

text \<open>
  The operator templates as the catalog instantiates them (\<^verbatim>\<open>add_op<double>\<close> and so on).
  \<^verbatim>\<open>cdiv\<close> is the integer division of C++: it truncates towards zero and has no
  meaning for a zero divisor (\<open>None\<close>). \<^verbatim>\<open>int32\<close> is the result of an operation on
  \<^verbatim>\<open>int32_t\<close> operands, whose overflow has no meaning either.

  In \<^verbatim>\<open>avg_avg_log\<close> the parameters are \<^verbatim>\<open>int32_t\<close> values. The conversion
  \<^verbatim>\<open>static_cast<int64_t>(std::abs(origin))\<close> is defined only below \<open>2^63\<close>; on a
  non-negative value it is the floor. The two start offsets are computed in
  \<^verbatim>\<open>int32_t\<close>, everything else in \<^verbatim>\<open>int64_t\<close>, where no overflow is possible for
  \<^verbatim>\<open>int32_t\<close> parameters. The logarithm is the real one: \<^verbatim>\<open>std::log\<close> of zero or of a
  negative number is not a finite value and its conversion to an integer has no meaning.
\<close>

definition add_op :: "real \<Rightarrow> real \<Rightarrow> real" where
  "add_op a b = a + b"

definition sub_op :: "real \<Rightarrow> real \<Rightarrow> real" where
  "sub_op a b = a - b"

definition mul_op :: "real \<Rightarrow> real \<Rightarrow> real" where
  "mul_op a b = a * b"

definition div_op :: "real \<Rightarrow> real \<Rightarrow> real" where
  "div_op a b = (if b = 0 then 0 else a / b)"

definition sqrt_op :: "real \<Rightarrow> real" where
  "sqrt_op v = (if v < 0 then 0 else sqrt v)"

definition cdiv :: "int \<Rightarrow> int \<Rightarrow> int option" where
  "cdiv a b = (if b = 0 then None else Some (sgn a * sgn b * (\<bar>a\<bar> div \<bar>b\<bar>)))"

definition int32 :: "int \<Rightarrow> int option" where
  "int32 x = (if - (2 ^ 31) \<le> x \<and> x < 2 ^ 31 then Some x else None)"

definition avg_avg_log :: "real \<Rightarrow> int \<Rightarrow> int \<Rightarrow> int \<Rightarrow> int \<Rightarrow> int option" where
  "avg_avg_log origin inter1 threshold1 inter2 threshold2 =
     (if origin = 0 then Some 0
      else if \<not> \<bar>origin\<bar> < 2 ^ 63 then None
      else
        let ori_abs = \<lfloor>\<bar>origin\<bar>\<rfloor> in
        if ori_abs \<le> threshold1 then
          do {
            q \<leftarrow> cdiv ori_abs inter1;
            let res = q + 1;
            Some (if origin \<ge> 0 then res else - res)
          }
        else if ori_abs \<le> threshold2 then
          do {
            q1 \<leftarrow> cdiv threshold1 inter1 \<bind> int32;
            start \<leftarrow> int32 (q1 + 1);
            q2 \<leftarrow> cdiv (ori_abs - threshold1) inter2;
            let res = start + q2 + 1;
            Some (if origin \<ge> 0 then res else - res)
          }
        else
          do {
            q1 \<leftarrow> cdiv threshold1 inter1 \<bind> int32;
            s1 \<leftarrow> int32 (q1 + 1);
            d \<leftarrow> int32 (threshold2 - threshold1);
            q2 \<leftarrow> cdiv d inter2 \<bind> int32;
            s2 \<leftarrow> int32 (s1 + q2);
            start \<leftarrow> int32 (s2 + 1);
            realLog \<leftarrow> cdiv ori_abs inter2;
            if realLog \<le> 0 then None
            else
              let res = start + \<lfloor>ln (real_of_int realLog) / ln (3 / 2)\<rfloor>
              in Some (if origin \<ge> 0 then res else - res)
          })"

section \<open>Interpreter executor (InterpreterExecutor)\<close>

text \<open>
  \<^verbatim>\<open>std::stod\<close> is a parameter: \<open>stod s\<close> is the number it reads from \<open>s\<close>, or \<open>None\<close>
  when it throws. \<^verbatim>\<open>execute_op\<close> returns \<^verbatim>\<open>true\<close> with the updated context (\<open>Inr\<close>) or
  \<^verbatim>\<open>false\<close> (\<open>Inl\<close>, with the exception it caught or the unknown operator); reading
  \<^verbatim>\<open>args[i]\<close> past the end of the vector and converting a value that does not fit are
  \<open>UndefinedBehaviour\<close>. A failing step leaves the context as the earlier steps made it;
  the model returns only the error then.
\<close>

definition bind_result :: "error + 'a \<Rightarrow> ('a \<Rightarrow> error + 'b) \<Rightarrow> error + 'b" where
  "bind_result r f = (case r of Inl e \<Rightarrow> Inl e | Inr x \<Rightarrow> f x)"

definition get_arg_value :: "(string \<Rightarrow> real option) \<Rightarrow> Arg \<Rightarrow> ExecutionContext \<Rightarrow> ValueVariant" where
  "get_arg_value stod arg ctx =
     (if arg_type arg = VARIABLE then
        (if has_variable ctx (arg_value arg) then
           (case get ctx T_double (arg_value arg) of
              Inr (VDouble d) \<Rightarrow> VDouble d
            | _ \<Rightarrow>
              (case get ctx T_int32 (arg_value arg) of
                 Inr (VInt32 w) \<Rightarrow> VDouble (real_of_int (sint w))
               | _ \<Rightarrow>
                 (case get ctx T_int64 (arg_value arg) of
                    Inr (VInt64 w) \<Rightarrow> VDouble (real_of_int (sint w))
                  | _ \<Rightarrow> VDouble 0)))
         else VDouble 0)
      else (case stod (arg_value arg) of Some d \<Rightarrow> VDouble d | None \<Rightarrow> VDouble 0))"

text \<open>
  \<open>get_double argv i\<close> and \<open>get_int32 argv i\<close> are \<^verbatim>\<open>std::get<double>(args[i])\<close> and
  \<^verbatim>\<open>std::get<int32_t>(args[i])\<close>; \<open>cast_int32\<close> and \<open>cast_int64\<close> are
  \<^verbatim>\<open>static_cast\<close> from \<^verbatim>\<open>double\<close>, which truncates towards zero.
\<close>

definition arg_at :: "ValueVariant list \<Rightarrow> nat \<Rightarrow> error + ValueVariant" where
  "arg_at argv i = (if i < length argv then Inr (argv ! i) else Inl UndefinedBehaviour)"

definition get_double :: "ValueVariant list \<Rightarrow> nat \<Rightarrow> error + real" where
  "get_double argv i =
     bind_result (arg_at argv i)
       (\<lambda>v. case v of VDouble d \<Rightarrow> Inr d | _ \<Rightarrow> Inl BadVariantAccess)"

definition get_int32 :: "ValueVariant list \<Rightarrow> nat \<Rightarrow> error + 32 word" where
  "get_int32 argv i =
     bind_result (arg_at argv i)
       (\<lambda>v. case v of VInt32 w \<Rightarrow> Inr w | _ \<Rightarrow> Inl BadVariantAccess)"

definition truncate :: "real \<Rightarrow> int" where
  "truncate r = (if r < 0 then \<lceil>r\<rceil> else \<lfloor>r\<rfloor>)"

definition cast_int32 :: "real \<Rightarrow> error + 32 word" where
  "cast_int32 r =
     (if - (2 ^ 31) \<le> truncate r \<and> truncate r < 2 ^ 31 then Inr (word_of_int (truncate r))
      else Inl UndefinedBehaviour)"

definition cast_int64 :: "real \<Rightarrow> error + 64 word" where
  "cast_int64 r =
     (if - (2 ^ 63) \<le> truncate r \<and> truncate r < 2 ^ 63 then Inr (word_of_int (truncate r))
      else Inl UndefinedBehaviour)"

definition execute_op ::
  "(string \<Rightarrow> real option) \<Rightarrow> OpCall \<Rightarrow> ExecutionContext \<Rightarrow> error + ExecutionContext" where
  "execute_op stod op ctx =
     (let argv = map (\<lambda>arg. get_arg_value stod arg ctx) (args op);
          out = output_var op
      in
      if op_name op = ''add'' then
        bind_result (get_double argv 0) (\<lambda>a.
        bind_result (get_double argv 1) (\<lambda>b.
          Inr (set_variable ctx out DOUBLE (VDouble (a + b)))))
      else if op_name op = ''sub'' then
        bind_result (get_double argv 0) (\<lambda>a.
        bind_result (get_double argv 1) (\<lambda>b.
          Inr (set_variable ctx out DOUBLE (VDouble (a - b)))))
      else if op_name op = ''mul'' then
        bind_result (get_double argv 0) (\<lambda>a.
        bind_result (get_double argv 1) (\<lambda>b.
          Inr (set_variable ctx out DOUBLE (VDouble (a * b)))))
      else if op_name op = ''div'' then
        bind_result (get_double argv 0) (\<lambda>a.
        bind_result (get_double argv 1) (\<lambda>b.
          let result = (if b \<noteq> 0 then a / b else 0)
          in Inr (set_variable ctx out DOUBLE (VDouble result))))
      else if op_name op = ''get_sign'' then
        bind_result (get_double argv 0) (\<lambda>a.
          let sign = (if a > 0 then 1 else if a < 0 then - 1 else 0)
          in Inr (set_variable ctx out INT32 (VInt32 sign)))
      else if op_name op = ''abs'' then
        bind_result (get_double argv 0) (\<lambda>a.
          Inr (set_variable ctx out DOUBLE (VDouble \<bar>a\<bar>)))
      else if op_name op = ''sqrt'' then
        bind_result (get_double argv 0) (\<lambda>a.
          Inr (set_variable ctx out DOUBLE (VDouble (sqrt \<bar>a\<bar>))))
      else if op_name op = ''if_else'' then
        bind_result (get_int32 argv 0) (\<lambda>cond.
        bind_result (get_double argv 1) (\<lambda>true_val.
        bind_result (get_double argv 2) (\<lambda>false_val.
          Inr (set_variable ctx out DOUBLE (VDouble (if cond \<noteq> 0 then true_val else false_val))))))
      else if op_name op = ''max'' then
        bind_result (get_double argv 0) (\<lambda>a.
        bind_result (get_double argv 1) (\<lambda>b.
          Inr (set_variable ctx out DOUBLE (VDouble (max a b)))))
      else if op_name op = ''min'' then
        bind_result (get_double argv 0) (\<lambda>a.
        bind_result (get_double argv 1) (\<lambda>b.
          Inr (set_variable ctx out DOUBLE (VDouble (min a b)))))
      else if op_name op = ''square'' then
        bind_result (get_double argv 0) (\<lambda>a.
          Inr (set_variable ctx out DOUBLE (VDouble (a * a))))
      else if op_name op = ''percent'' then
        bind_result (get_double argv 0) (\<lambda>part.
        bind_result (get_double argv 1) (\<lambda>total.
          Inr (set_variable ctx out DOUBLE
                (VDouble (if total \<noteq> 0 then part / total * 100 else 0)))))
      else if op_name op = ''floor'' then
        bind_result (get_double argv 0) (\<lambda>a.
        bind_result (cast_int32 (of_int \<lfloor>a\<rfloor>)) (\<lambda>w.
          Inr (set_variable ctx out INT32 (VInt32 w))))
      else if op_name op = ''direct_output_int32'' then
        bind_result (get_double argv 0) (\<lambda>a.
        bind_result (cast_int32 a) (\<lambda>w.
          Inr (set_variable ctx out INT32 (VInt32 w))))
      else if op_name op = ''direct_output_int64'' then
        bind_result (get_double argv 0) (\<lambda>a.
        bind_result (cast_int64 a) (\<lambda>w.
          Inr (set_variable ctx out INT64 (VInt64 w))))
      else if op_name op = ''direct_output_double'' then
        bind_result (get_double argv 0) (\<lambda>a.
          Inr (set_variable ctx out DOUBLE (VDouble a)))
      else if op_name op = ''price_diff'' then
        bind_result (get_double argv 0) (\<lambda>discount.
        bind_result (get_double argv 1) (\<lambda>original.
          Inr (set_variable ctx out DOUBLE
                (VDouble (if discount = 0 then 0 else discount - original)))))
      else if op_name op = ''avg_avg_log'' then
        bind_result (get_double argv 0) (\<lambda>origin.
        bind_result (if length argv > 1 then get_int32 argv 1 else Inr 1000) (\<lambda>inter1.
        bind_result (if length argv > 2 then get_int32 argv 2 else Inr 15000) (\<lambda>threshold1.
        bind_result (if length argv > 3 then get_int32 argv 3 else Inr 5000) (\<lambda>inter2.
        bind_result (if length argv > 4 then get_int32 argv 4 else Inr 250000) (\<lambda>threshold2.
          case avg_avg_log origin (sint inter1) (sint threshold1) (sint inter2) (sint threshold2) of
            None \<Rightarrow> Inl UndefinedBehaviour
          | Some result \<Rightarrow> Inr (set_variable ctx out INT64 (VInt64 (word_of_int result))))))))
      else Inl (UnknownOperator (op_name op)))"

fun execute_steps ::
  "(string \<Rightarrow> real option) \<Rightarrow> OpCall list \<Rightarrow> ExecutionContext \<Rightarrow> error + ExecutionContext" where
  "execute_steps stod [] ctx = Inr ctx"
| "execute_steps stod (step # rest) ctx =
     (case execute_op stod step ctx of
        Inl e \<Rightarrow> Inl e
      | Inr ctx' \<Rightarrow> execute_steps stod rest ctx')"

definition execute ::
  "(string \<Rightarrow> real option) \<Rightarrow> PipelineConfig \<Rightarrow> ExecutionContext \<Rightarrow> error + ExecutionContext" where
  "execute stod config ctx = execute_steps stod (steps config) ctx"

text \<open>
  The demo configuration of \<^verbatim>\<open>create_demo_config\<close>, built as there with
  \<^verbatim>\<open>OpCallBuilder(name).output(var).args(list).build()\<close>, the context of the test
  \<^verbatim>\<open>interpreter_execution\<close>, and two single calls used as examples.
\<close>

definition OpCallBuilder :: "string \<Rightarrow> string \<Rightarrow> Arg list \<Rightarrow> OpCall" where
  "OpCallBuilder nm out arguments =
     \<lparr>op_name = nm, output_var = out, args = arguments, options = []\<rparr>"

definition create_demo_config :: "(string \<Rightarrow> 64 word) \<Rightarrow> PipelineConfig" where
  "create_demo_config hasher =
     snd (compute_fingerprint hasher
       \<lparr>name = ''demo_pipeline'',
        steps =
          [OpCallBuilder ''add'' ''temp_sum''
             [Arg_variable ''price_a'' DOUBLE, Arg_variable ''price_b'' DOUBLE],
           OpCallBuilder ''mul'' ''temp_product''
             [Arg_variable ''temp_sum'' DOUBLE, Arg_variable ''volume'' INT32],
           OpCallBuilder ''div'' ''final_score''
             [Arg_variable ''temp_product'' DOUBLE, Arg_literal ''100'' DOUBLE]],
        inputs =
          [\<lparr>io_name = ''price_a'', io_type = DOUBLE, io_required = True\<rparr>,
           \<lparr>io_name = ''price_b'', io_type = DOUBLE, io_required = True\<rparr>,
           \<lparr>io_name = ''volume'', io_type = INT32, io_required = True\<rparr>],
        outputs = [\<lparr>io_name = ''final_score'', io_type = DOUBLE, io_required = False\<rparr>],
        variables =
          [\<lparr>io_name = ''temp_sum'', io_type = DOUBLE, io_required = False\<rparr>,
           \<lparr>io_name = ''temp_product'', io_type = DOUBLE, io_required = False\<rparr>,
           \<lparr>io_name = ''final_score'', io_type = DOUBLE, io_required = False\<rparr>],
        fingerprint = []\<rparr>)"

definition demo_context :: ExecutionContext where
  "demo_context =
     set_variables empty_context
       [(''price_a'', DOUBLE, VDouble 100), (''price_b'', DOUBLE, VDouble 50),
        (''volume'', INT32, VInt32 10)]"

definition sqrt_call :: OpCall where
  "sqrt_call = OpCallBuilder ''sqrt'' ''y'' [Arg_variable ''x'' DOUBLE]"

definition div_call :: OpCall where
  "div_call = OpCallBuilder ''div'' ''y'' [Arg_variable ''a'' DOUBLE, Arg_variable ''b'' DOUBLE]"

section \<open>Code emitter (CodeGenerator)\<close>

text \<open>
  The emitter writes C++ text. Modelled here, as lists of lines, are the statements of the
  pipeline body (\<^verbatim>\<open>generate_op_call\<close>) and the input unpacking of the exported entry (the
  first loop of \<^verbatim>\<open>generate_export_function\<close>); the comment line that precedes each
  unpacking block is left out. \<^verbatim>\<open>show_nat\<close> is the decimal form of a \<^verbatim>\<open>size_t\<close> written
  to a stream.
\<close>

definition dec_digit :: "nat \<Rightarrow> char" where
  "dec_digit d = ''0123456789'' ! d"

function show_nat :: "nat \<Rightarrow> string" where
  "show_nat n = (if n < 10 then [dec_digit n] else show_nat (n div 10) @ [dec_digit (n mod 10)])"
  by pat_completeness auto
termination
  by (relation "measure id") auto

declare show_nat.simps [simp del]

definition op_output_types :: "string \<rightharpoonup> DataType" where
  "op_output_types =
     map_of
       [(''get_sign'', INT32), (''price_diff'', DOUBLE), (''avg_avg_log'', INT64),
        (''direct_output_int32'', INT32), (''direct_output_int64'', INT64),
        (''direct_output_double'', DOUBLE), (''direct_output_string'', STRING),
        (''len'', INT64), (''list_to_string'', STRING), (''catein_list_cross'', INT32),
        (''catein_list_cross_count'', INT32), (''add'', DOUBLE), (''sub'', DOUBLE),
        (''mul'', DOUBLE), (''div'', DOUBLE), (''if_else'', DOUBLE), (''max'', DOUBLE),
        (''min'', DOUBLE), (''abs'', DOUBLE), (''square'', DOUBLE), (''sqrt'', DOUBLE),
        (''floor'', INT32), (''ceil'', INT32), (''percent'', DOUBLE),
        (''moving_average'', DOUBLE), (''vector_sum'', DOUBLE), (''vector_avg'', DOUBLE)]"

definition infer_output_type :: "OpCall \<Rightarrow> DataType" where
  "infer_output_type step =
     (case get_operator (op_name step) of
        Some meta \<Rightarrow> return_type meta
      | None \<Rightarrow>
          (case op_output_types (op_name step) of
             Some ty \<Rightarrow> ty
           | None \<Rightarrow> DOUBLE))"

fun get_type_prefix :: "DataType \<Rightarrow> string" where
  "get_type_prefix INT32 = ''int32_t''"
| "get_type_prefix INT64 = ''int64_t''"
| "get_type_prefix DOUBLE = ''double''"
| "get_type_prefix FLOAT = ''float''"
| "get_type_prefix _ = ''double''"

definition generate_arg_code :: "Arg \<Rightarrow> string" where
  "generate_arg_code arg =
     (if arg_type arg = VARIABLE then ''ctx.'' @ arg_value arg else arg_value arg)"

definition generate_op_call_code :: "OpCall \<Rightarrow> string \<Rightarrow> string" where
  "generate_op_call_code step args_str =
     (case get_operator (op_name step) of
        Some meta \<Rightarrow>
          ''ctx.'' @ output_var step @ '' = ::turbograph::ops::'' @ function_name meta
          @ (if needs_template meta
             then ''<'' @ get_type_prefix (infer_output_type step) @ ''>''
             else [])
          @ ''('' @ args_str @ '');''
      | None \<Rightarrow>
          ''ctx.'' @ output_var step @ '' = ::turbograph::ops::'' @ op_name step
          @ ''('' @ args_str @ '');'')"

fun join_arg_code :: "string list \<Rightarrow> string" where
  "join_arg_code [] = []"
| "join_arg_code [a] = a"
| "join_arg_code (a # b # rest) = a @ '', '' @ join_arg_code (b # rest)"

definition generate_op_call :: "OpCall \<Rightarrow> string list" where
  "generate_op_call step =
     [''    // '' @ op_name step @ '' -> '' @ output_var step,
      ''    '' @ generate_op_call_code step (join_arg_code (map generate_arg_code (args step))),
      '''']"

definition generate_input_unpack :: "nat \<Rightarrow> IOField \<Rightarrow> string list" where
  "generate_input_unpack offset input =
     (let type_name = get_cpp_type_name (io_type input) in
      [''    if (input_data) {'']
      @ (if type_name = ''double'' then
           [''        double* arr = static_cast<double*>(input_data);'',
            ''        ctx.'' @ io_name input @ '' = arr['' @ show_nat offset @ ''];'']
         else if type_name = ''int32_t'' then
           [''        int32_t* arr = static_cast<int32_t*>(input_data);'',
            ''        ctx.'' @ io_name input @ '' = arr['' @ show_nat offset @ ''];'']
         else if type_name = ''int64_t'' then
           [''        int64_t* arr = static_cast<int64_t*>(input_data);'',
            ''        ctx.'' @ io_name input @ '' = arr['' @ show_nat offset @ ''];'']
         else [])
      @ [''    }'', ''''])"

fun generate_input_unpacks :: "nat \<Rightarrow> IOField list \<Rightarrow> string list" where
  "generate_input_unpacks offset [] = []"
| "generate_input_unpacks offset (input # rest) =
     generate_input_unpack offset input @ generate_input_unpacks (Suc offset) rest"

section \<open>JIT executor (JITExecutor::execute)\<close>

text \<open>
  The compiled entry is a parameter: \<open>None\<close> when compilation or loading failed, otherwise
  a function of the two arrays whose addresses it is given (the input doubles and the
  output doubles), returning its flag and the output array after the call. The vector
  \<^verbatim>\<open>input_int32s\<close> is filled and never passed on; \<^verbatim>\<open>output_int32s\<close> is never written.
  An exception of \<^verbatim>\<open>context.get\<close> leaves \<^verbatim>\<open>execute\<close> (\<open>Inl\<close>).
\<close>

fun marshal_inputs ::
  "IOField list \<Rightarrow> ExecutionContext \<Rightarrow> error + (real list \<times> 32 word list)" where
  "marshal_inputs [] ctx = Inr ([], [])"
| "marshal_inputs (input # rest) ctx =
     (if io_type input = DOUBLE then
        (case get ctx T_double (io_name input) of
           Inr (VDouble d) \<Rightarrow>
             bind_result (marshal_inputs rest ctx) (\<lambda>(ds, ws). Inr (d # ds, ws))
         | Inr _ \<Rightarrow> Inl BadVariantAccess
         | Inl e \<Rightarrow> Inl e)
      else if io_type input = INT32 then
        (case get ctx T_int32 (io_name input) of
           Inr (VInt32 w) \<Rightarrow>
             bind_result (marshal_inputs rest ctx) (\<lambda>(ds, ws). Inr (ds, w # ws))
         | Inr _ \<Rightarrow> Inl BadVariantAccess
         | Inl e \<Rightarrow> Inl e)
      else marshal_inputs rest ctx)"

fun write_outputs ::
  "IOField list \<Rightarrow> nat \<Rightarrow> real list \<Rightarrow> 32 word list \<Rightarrow> ExecutionContext
     \<Rightarrow> error + ExecutionContext" where
  "write_outputs [] out_idx output_doubles output_int32s ctx = Inr ctx"
| "write_outputs (output # rest) out_idx output_doubles output_int32s ctx =
     (if io_type output = DOUBLE then
        (if out_idx < length output_doubles then
           write_outputs rest (Suc out_idx) output_doubles output_int32s
             (set_variable ctx (io_name output) DOUBLE (VDouble (output_doubles ! out_idx)))
         else Inl UndefinedBehaviour)
      else if io_type output = INT32 then
        (if out_idx < length output_int32s then
           write_outputs rest (Suc out_idx) output_doubles output_int32s
             (set_variable ctx (io_name output) INT32 (VInt32 (output_int32s ! out_idx)))
         else Inl UndefinedBehaviour)
      else if io_type output = INT64 then
        (if out_idx < length output_doubles then
           bind_result (cast_int64 (output_doubles ! out_idx))
             (\<lambda>w. write_outputs rest (Suc out_idx) output_doubles output_int32s
                     (set_variable ctx (io_name output) INT64 (VInt64 w)))
         else Inl UndefinedBehaviour)
      else write_outputs rest (Suc out_idx) output_doubles output_int32s ctx)"

type_synonym entry_function = "real list \<Rightarrow> real list \<Rightarrow> bool \<times> real list"

definition jit_execute ::
  "entry_function option \<Rightarrow> PipelineConfig \<Rightarrow> ExecutionContext
     \<Rightarrow> error + (bool \<times> ExecutionContext)" where
  "jit_execute execute_func config ctx =
     (case execute_func of
        None \<Rightarrow> Inr (False, ctx)
      | Some entry \<Rightarrow>
          bind_result (marshal_inputs (inputs config) ctx) (\<lambda>(input_doubles, input_int32s).
            let output_doubles = replicate (length (outputs config)) 0;
                output_int32s = replicate (length (outputs config)) 0;
                (result, output_doubles') = entry input_doubles output_doubles
            in
            bind_result (write_outputs (outputs config) 0 output_doubles' output_int32s ctx)
              (\<lambda>ctx'.
                 if steps config \<noteq> []
                    \<and> output_var (last (steps config)) \<notin> set (map io_name (outputs config))
                    \<and> output_doubles' \<noteq> []
                 then Inr (result,
                        set_variable ctx' (output_var (last (steps config))) DOUBLE
                          (VDouble (output_doubles' ! 0)))
                 else Inr (result, ctx'))))"

section \<open>Memory image of a double array\<close>

text \<open>
  What the emitted \<^verbatim>\<open>static_cast<int32_t*>(input_data)[k]\<close> reads on a little-endian
  machine with IEEE-754 binary64 doubles: the array as 64-bit patterns, the value a
  pattern encodes, and the 32-bit element \<open>k\<close> of the same bytes.
\<close>

definition double_of_bits :: "64 word \<Rightarrow> real option" where
  "double_of_bits w =
     (let e = unat (drop_bit 52 w AND 0x7FF);
          f = unat (w AND 0xFFFFFFFFFFFFF);
          m = (if e = 0 then real f / 2 ^ 52 * (1 / 2 ^ 1022)
               else if e \<ge> 1023 then (1 + real f / 2 ^ 52) * 2 ^ (e - 1023)
               else (1 + real f / 2 ^ 52) / 2 ^ (1023 - e))
      in if e = 2047 then None else Some (if bit w 63 then - m else m))"

definition int32_view :: "64 word list \<Rightarrow> nat \<Rightarrow> 32 word option" where
  "int32_view mem k =
     (if k div 2 < length mem then Some (ucast (drop_bit (32 * (k mod 2)) (mem ! (k div 2))))
      else None)"

section \<open>Configuration text format (JsonConfigParser, ConfigGenerator)\<close>

text \<open>
  The JSON library is not part of the sources. Its documents are modelled by the datatype
  \<open>json\<close> (an object is its list of members, looked up by key). \<^verbatim>\<open>generate_json\<close> is
  modelled up to the document \<^verbatim>\<open>j\<close> it builds, and \<^verbatim>\<open>parse_string\<close> from the document
  \<^verbatim>\<open>json::parse\<close> returns: writing a document with \<^verbatim>\<open>dump\<close> and parsing the text is
  taken to give the document back. The library functions the parser calls on strings and
  numbers are parameters (\<open>json_env\<close>): the position at which \<^verbatim>\<open>std::stod\<close> stops and
  the value of \<^verbatim>\<open>std::stoll\<close> (\<open>None\<close> when they throw), \<^verbatim>\<open>std::to_string\<close> of a double,
  and \<^verbatim>\<open>dump\<close> of a document.

  A field parsed from a member list without \<^verbatim>\<open>type\<close> keeps an uninitialised type tag,
  which the model marks \<open>UndefinedBehaviour\<close>. \<open>reparsed_arg\<close> and \<open>reparsed_step\<close>
  name what a written argument and a written step are read back as.
\<close>

datatype json =
  JNull
  | JBool bool
  | JInt int
  | JFloat real
  | JString string
  | JArray "json list"
  | JObject "(string \<times> json) list"

record json_env =
  stod_pos :: "string \<Rightarrow> nat option"
  stoll :: "string \<Rightarrow> int option"
  to_string_double :: "real \<Rightarrow> string"
  dump :: "json \<Rightarrow> string"

definition json_contains :: "json \<Rightarrow> string \<Rightarrow> bool" where
  "json_contains j key = (case j of JObject kvs \<Rightarrow> map_of kvs key \<noteq> None | _ \<Rightarrow> False)"

definition json_at :: "json \<Rightarrow> string \<Rightarrow> json" where
  "json_at j key =
     (case j of
        JObject kvs \<Rightarrow> (case map_of kvs key of Some v \<Rightarrow> v | None \<Rightarrow> JNull)
      | _ \<Rightarrow> JNull)"

definition get_string :: "json \<Rightarrow> error + string" where
  "get_string j = (case j of JString s \<Rightarrow> Inr s | _ \<Rightarrow> Inl JsonTypeError)"

definition get_bool :: "json \<Rightarrow> error + bool" where
  "get_bool j = (case j of JBool b \<Rightarrow> Inr b | _ \<Rightarrow> Inl JsonTypeError)"

fun map_result :: "('a \<Rightarrow> error + 'b) \<Rightarrow> 'a list \<Rightarrow> error + 'b list" where
  "map_result f [] = Inr []"
| "map_result f (x # xs) =
     bind_result (f x) (\<lambda>y. bind_result (map_result f xs) (\<lambda>ys. Inr (y # ys)))"

definition show_int :: "int \<Rightarrow> string" where
  "show_int i = (if i < 0 then ''-'' @ show_nat (nat (- i)) else show_nat (nat i))"

definition INT32_MAX :: int where
  "INT32_MAX = 2147483647"

definition INT32_MIN :: int where
  "INT32_MIN = - 2147483648"

definition parse_arg :: "json_env \<Rightarrow> json \<Rightarrow> Arg" where
  "parse_arg env arg =
     (case arg of
        JString str \<Rightarrow>
          if str \<noteq> [] \<and> hd str = CHR ''$'' then Arg_variable (tl str) UNKNOWN
          else
            (case stod_pos env str of
               Some pos \<Rightarrow>
                 if pos = length str then
                   (if CHR ''.'' \<in> set str \<or> CHR ''e'' \<in> set str \<or> CHR ''E'' \<in> set str
                    then Arg_literal str DOUBLE
                    else
                      (case stoll env str of
                         Some int_val \<Rightarrow>
                           if int_val > INT32_MAX \<or> int_val < INT32_MIN
                           then Arg_literal str INT64
                           else Arg_literal str INT32
                       | None \<Rightarrow> Arg_literal str STRING))
                 else Arg_literal str STRING
             | None \<Rightarrow> Arg_literal str STRING)
      | JInt val \<Rightarrow>
          if val > INT32_MAX \<or> val < INT32_MIN then Arg_literal (show_int val) INT64
          else Arg_literal (show_int val) INT32
      | JFloat d \<Rightarrow> Arg_literal (to_string_double env d) DOUBLE
      | JBool b \<Rightarrow> Arg_literal (if b then ''true'' else ''false'') INT32
      | _ \<Rightarrow> Arg_literal (dump env arg) STRING)"

definition parse_args :: "json_env \<Rightarrow> json \<Rightarrow> error + Arg list" where
  "parse_args env arguments =
     (case arguments of
        JArray items \<Rightarrow> Inr (map (parse_arg env) items)
      | _ \<Rightarrow> Inl (RuntimeError ''args must be an array''))"

definition parse_options :: "json \<Rightarrow> error + (string \<times> string) list" where
  "parse_options opts =
     (case opts of
        JObject kvs \<Rightarrow>
          map_result (\<lambda>(key, v). bind_result (get_string v) (\<lambda>s. Inr (key, s))) kvs
      | _ \<Rightarrow> Inr [])"

definition parse_step :: "json_env \<Rightarrow> json \<Rightarrow> error + OpCall" where
  "parse_step env step =
     bind_result (if json_contains step ''op'' then get_string (json_at step ''op'') else Inr [])
       (\<lambda>op.
     bind_result
       (if json_contains step ''output'' then get_string (json_at step ''output'') else Inr [])
       (\<lambda>out.
     bind_result
       (if json_contains step ''args'' then parse_args env (json_at step ''args'') else Inr [])
       (\<lambda>arguments.
     bind_result
       (if json_contains step ''options'' then parse_options (json_at step ''options'')
        else Inr [])
       (\<lambda>opts.
          Inr \<lparr>op_name = op, output_var = out, args = arguments, options = opts\<rparr>))))"

definition parse_steps :: "json_env \<Rightarrow> json \<Rightarrow> error + OpCall list" where
  "parse_steps env steps_json =
     (case steps_json of
        JArray items \<Rightarrow> map_result (parse_step env) items
      | _ \<Rightarrow> Inl (RuntimeError ''steps must be an array''))"

definition parse_io_field :: "json \<Rightarrow> error + IOField" where
  "parse_io_field item =
     bind_result
       (if json_contains item ''name'' then get_string (json_at item ''name'') else Inr [])
       (\<lambda>nm.
     bind_result
       (if json_contains item ''type''
        then bind_result (get_string (json_at item ''type''))
               (\<lambda>type_str. Inr (string_to_data_type type_str))
        else Inl UndefinedBehaviour)
       (\<lambda>ty.
     bind_result
       (if json_contains item ''required'' then get_bool (json_at item ''required'')
        else Inr True)
       (\<lambda>req. Inr \<lparr>io_name = nm, io_type = ty, io_required = req\<rparr>)))"

definition parse_io_fields :: "json \<Rightarrow> string \<Rightarrow> error + IOField list" where
  "parse_io_fields arr field_name =
     (case arr of
        JArray items \<Rightarrow> map_result parse_io_field items
      | _ \<Rightarrow> Inl (RuntimeError (field_name @ '' must be an array'')))"

definition parse_string ::
  "json_env \<Rightarrow> (string \<Rightarrow> 64 word) \<Rightarrow> json \<Rightarrow> error + PipelineConfig" where
  "parse_string env hasher j =
     bind_result (if json_contains j ''name'' then get_string (json_at j ''name'') else Inr [])
       (\<lambda>nm.
     bind_result
       (if json_contains j ''inputs'' then parse_io_fields (json_at j ''inputs'') ''inputs''
        else Inr [])
       (\<lambda>ins.
     bind_result
       (if json_contains j ''outputs'' then parse_io_fields (json_at j ''outputs'') ''outputs''
        else Inr [])
       (\<lambda>outs.
     bind_result
       (if json_contains j ''variables''
        then parse_io_fields (json_at j ''variables'') ''variables''
        else Inr [])
       (\<lambda>vars.
     bind_result
       (if json_contains j ''steps'' then parse_steps env (json_at j ''steps'') else Inr [])
       (\<lambda>sts.
          Inr (snd (compute_fingerprint hasher
                 \<lparr>name = nm, steps = sts, inputs = ins, outputs = outs, variables = vars,
                  fingerprint = []\<rparr>)))))))"

definition io_field_json :: "IOField \<Rightarrow> json" where
  "io_field_json field =
     JObject [(''name'', JString (io_name field)),
              (''type'', JString (data_type_to_string (io_type field))),
              (''required'', JBool (io_required field))]"

definition arg_json :: "Arg \<Rightarrow> json" where
  "arg_json arg =
     (if arg_type arg = VARIABLE then JString (''$'' @ arg_value arg)
      else JString (arg_value arg))"

definition step_json :: "OpCall \<Rightarrow> json" where
  "step_json step =
     JObject
       ([(''op'', JString (op_name step)),
         (''output'', JString (output_var step)),
         (''args'', JArray (map arg_json (args step)))]
        @ (if options step \<noteq> []
           then [(''options'', JObject (map (\<lambda>(key, v). (key, JString v)) (options step)))]
           else []))"

definition generate_json :: "PipelineConfig \<Rightarrow> json" where
  "generate_json config =
     JObject [(''name'', JString (name config)),
              (''inputs'', JArray (map io_field_json (inputs config))),
              (''variables'', JArray (map io_field_json (variables config))),
              (''steps'', JArray (map step_json (steps config)))]"

definition literal_args_plain :: "PipelineConfig \<Rightarrow> bool" where
  "literal_args_plain config =
     list_all (\<lambda>step.
        list_all (\<lambda>a. arg_type a = VARIABLE \<or> arg_value a = [] \<or> hd (arg_value a) \<noteq> CHR ''$'')
          (args step))
       (steps config)"

definition config_dollar_literal :: PipelineConfig where
  "config_dollar_literal =
     \<lparr>name = ''p'',
      steps = [\<lparr>op_name = ''add'', output_var = ''y'',
                args = [Arg_literal ''$x'' STRING], options = []\<rparr>],
      inputs = [], outputs = [], variables = [], fingerprint = []\<rparr>"

definition reparsed_arg :: "json_env \<Rightarrow> Arg \<Rightarrow> Arg" where
  "reparsed_arg env a = parse_arg env (arg_json a)"

definition reparsed_step :: "json_env \<Rightarrow> OpCall \<Rightarrow> OpCall" where
  "reparsed_step env step = step\<lparr>args := map (reparsed_arg env) (args step)\<rparr>"

definition example_env :: json_env where
  "example_env =
     \<lparr>stod_pos = (\<lambda>s. None), stoll = (\<lambda>s. None), to_string_double = (\<lambda>d. []),
      dump = (\<lambda>j. [])\<rparr>"

section \<open>Claim about the execution context\<close>

lemma ctx_variables_set_variable:
  "ctx_variables (set_variable ctx nm ty v) nm' =
     (if nm' = nm then Some \<lparr>var_name = nm, var_type = ty, var_value = v\<rparr>
      else ctx_variables ctx nm')"
  by (simp add: set_variable_def)

lemma get_set_variable_same:
  "get (set_variable ctx nm ty v) (alternative_of v) nm = Inr v"
  by (simp add: get_def std_get_def ctx_variables_set_variable)

lemma get_set_variable_other:
  "nm' \<noteq> nm \<Longrightarrow> get (set_variable ctx nm ty v) T nm' = get ctx T nm'"
  by (simp add: get_def ctx_variables_set_variable)

lemma get_set_variables_untouched:
  "nm \<notin> fst ` set hist \<Longrightarrow> get (set_variables ctx hist) T nm = get ctx T nm"
proof (induction hist arbitrary: ctx)
  case Nil
  then show ?case by simp
next
  case (Cons h hist)
  obtain n t v where h: "h = (n, t, v)" by (cases h)
  from Cons.prems have "nm \<noteq> n" and "nm \<notin> fst ` set hist"
    by (auto simp: h)
  then show ?case
    by (simp add: h Cons.IH get_set_variable_other)
qed

lemma set_variables_append:
  "set_variables ctx (xs @ ys) = set_variables (set_variables ctx xs) ys"
  by (induction xs arbitrary: ctx) auto

text \<open>
  Against claim C10 as stated: the name \<open>y\<close> is bound to the \<^verbatim>\<open>int32_t\<close> value 5, as in
  the test \<^verbatim>\<open>context_management\<close>, and \<^verbatim>\<open>get<double>\<close> does not return the stored value:
  it raises \<^verbatim>\<open>std::bad_variant_access\<close>.
\<close>

theorem C10_typed_read_counterexample:
  "has_variable (set_variable empty_context ''y'' INT32 (VInt32 5)) ''y''
   \<and> get (set_variable empty_context ''y'' INT32 (VInt32 5)) T_double ''y'' = Inl BadVariantAccess"
  by (simp add: has_variable_def get_def std_get_def ctx_variables_set_variable)

text \<open>
  Claim C10, amended. A name that is not bound makes \<^verbatim>\<open>get<T>\<close> raise the runtime error
  "Variable not found" for every \<open>T\<close>, while \<^verbatim>\<open>has_variable\<close> answers false. For a bound
  name \<^verbatim>\<open>has_variable\<close> answers true and \<^verbatim>\<open>get<T>\<close> is \<^verbatim>\<open>std::get<T>\<close> of the stored
  value, which after any history of \<^verbatim>\<open>set_variable\<close> calls is the value of the most
  recent call for that name. Alternative by alternative, \<^verbatim>\<open>std::get<T>\<close> returns the value
  when \<open>T\<close> is the type the value has (\<^verbatim>\<open>int32_t\<close> for an \<^verbatim>\<open>int32_t\<close> value, and so on
  through the nine alternatives) and raises \<^verbatim>\<open>std::bad_variant_access\<close> for every other
  \<open>T\<close>.
\<close>

theorem C10_context_get:
  "(ctx_variables ctx nm = None \<longrightarrow>
      get ctx T nm = Inl (RuntimeError (''Variable not found: '' @ nm)) \<and>
      \<not> has_variable ctx nm)
   \<and> (ctx_variables ctx nm = Some var \<longrightarrow>
      has_variable ctx nm \<and> get ctx T nm = std_get T (var_value var))
   \<and> (nm \<notin> fst ` set later \<longrightarrow>
      has_variable (set_variables ctx (earlier @ (nm, ty, v) # later)) nm \<and>
      get (set_variables ctx (earlier @ (nm, ty, v) # later)) T nm = std_get T v)
   \<and> std_get T (VInt32 i32) = (if T = T_int32 then Inr (VInt32 i32) else Inl BadVariantAccess)
   \<and> std_get T (VInt64 i64) = (if T = T_int64 then Inr (VInt64 i64) else Inl BadVariantAccess)
   \<and> std_get T (VDouble d) = (if T = T_double then Inr (VDouble d) else Inl BadVariantAccess)
   \<and> std_get T (VFloat f) = (if T = T_float then Inr (VFloat f) else Inl BadVariantAccess)
   \<and> std_get T (VString s) = (if T = T_string then Inr (VString s) else Inl BadVariantAccess)
   \<and> std_get T (VInt32List l32) =
        (if T = T_int32_list then Inr (VInt32List l32) else Inl BadVariantAccess)
   \<and> std_get T (VInt64List l64) =
        (if T = T_int64_list then Inr (VInt64List l64) else Inl BadVariantAccess)
   \<and> std_get T (VDoubleList ld) =
        (if T = T_double_list then Inr (VDoubleList ld) else Inl BadVariantAccess)
   \<and> std_get T (VStringList ls) =
        (if T = T_string_list then Inr (VStringList ls) else Inl BadVariantAccess)"
proof (intro conjI impI)
  assume "ctx_variables ctx nm = None"
  then show "get ctx T nm = Inl (RuntimeError (''Variable not found: '' @ nm))"
    and "\<not> has_variable ctx nm"
    by (simp_all add: get_def has_variable_def)
next
  assume "ctx_variables ctx nm = Some var"
  then show "has_variable ctx nm" and "get ctx T nm = std_get T (var_value var)"
    by (simp_all add: get_def has_variable_def)
next
  assume fresh: "nm \<notin> fst ` set later"
  let ?stored = "set_variable (set_variables ctx earlier) nm ty v"
  have split: "set_variables ctx (earlier @ (nm, ty, v) # later) = set_variables ?stored later"
    by (simp add: set_variables_append)
  have read: "get (set_variables ?stored later) T nm = get ?stored T nm"
    using fresh by (rule get_set_variables_untouched)
  have "get ?stored T nm = std_get T v"
    by (simp add: get_def ctx_variables_set_variable)
  with split read
  show r: "get (set_variables ctx (earlier @ (nm, ty, v) # later)) T nm = std_get T v"
    by simp
  have "get (set_variables ctx (earlier @ (nm, ty, v) # later)) T nm
      \<noteq> Inl (RuntimeError (''Variable not found: '' @ nm))"
    unfolding r by (simp add: std_get_def)
  then show "has_variable (set_variables ctx (earlier @ (nm, ty, v) # later)) nm"
    by (auto simp: get_def has_variable_def split: option.splits)
next
  show "std_get T (VInt32 i32) = (if T = T_int32 then Inr (VInt32 i32) else Inl BadVariantAccess)"
    by (auto simp: std_get_def)
  show "std_get T (VInt64 i64) = (if T = T_int64 then Inr (VInt64 i64) else Inl BadVariantAccess)"
    by (auto simp: std_get_def)
  show "std_get T (VDouble d) = (if T = T_double then Inr (VDouble d) else Inl BadVariantAccess)"
    by (auto simp: std_get_def)
  show "std_get T (VFloat f) = (if T = T_float then Inr (VFloat f) else Inl BadVariantAccess)"
    by (auto simp: std_get_def)
  show "std_get T (VString s) = (if T = T_string then Inr (VString s) else Inl BadVariantAccess)"
    by (auto simp: std_get_def)
  show "std_get T (VInt32List l32) =
        (if T = T_int32_list then Inr (VInt32List l32) else Inl BadVariantAccess)"
    by (auto simp: std_get_def)
  show "std_get T (VInt64List l64) =
        (if T = T_int64_list then Inr (VInt64List l64) else Inl BadVariantAccess)"
    by (auto simp: std_get_def)
  show "std_get T (VDoubleList ld) =
        (if T = T_double_list then Inr (VDoubleList ld) else Inl BadVariantAccess)"
    by (auto simp: std_get_def)
  show "std_get T (VStringList ls) =
        (if T = T_string_list then Inr (VStringList ls) else Inl BadVariantAccess)"
    by (auto simp: std_get_def)
qed

text \<open>
  The context of the test \<^verbatim>\<open>context_management\<close>, with \<open>x\<close> stored twice: the unbound
  \<open>z\<close>, the double \<open>x\<close>, the \<^verbatim>\<open>int32_t\<close> \<open>y\<close> read at its own type and at
  \<^verbatim>\<open>double\<close>, and the string \<open>s\<close>.
\<close>

theorem C10_context_get_witness:
  "get empty_context T_double ''z'' = Inl (RuntimeError ''Variable not found: z'')
   \<and> \<not> has_variable empty_context ''z''
   \<and> get (set_variables empty_context
        [(''x'', DOUBLE, VDouble 1), (''x'', DOUBLE, VDouble 10), (''y'', INT32, VInt32 5),
         (''s'', STRING, VString ''hello'')])
        T_double ''x'' = Inr (VDouble 10)
   \<and> get (set_variables empty_context
        [(''x'', DOUBLE, VDouble 1), (''x'', DOUBLE, VDouble 10), (''y'', INT32, VInt32 5),
         (''s'', STRING, VString ''hello'')])
        T_int32 ''y'' = Inr (VInt32 5)
   \<and> get (set_variables empty_context
        [(''x'', DOUBLE, VDouble 1), (''x'', DOUBLE, VDouble 10), (''y'', INT32, VInt32 5),
         (''s'', STRING, VString ''hello'')])
        T_double ''y'' = Inl BadVariantAccess
   \<and> get (set_variables empty_context
        [(''x'', DOUBLE, VDouble 1), (''x'', DOUBLE, VDouble 10), (''y'', INT32, VInt32 5),
         (''s'', STRING, VString ''hello'')])
        T_string ''s'' = Inr (VString ''hello'')"
proof -
  let ?hist = "[(''x'', DOUBLE, VDouble 1), (''x'', DOUBLE, VDouble 10), (''y'', INT32, VInt32 5),
         (''s'', STRING, VString ''hello'')]"
  have unbound: "ctx_variables empty_context ''z'' = None"
    by (simp add: empty_context_def)
  have first: "get empty_context T_double ''z'' = Inl (RuntimeError ''Variable not found: z'')
      \<and> \<not> has_variable empty_context ''z''"
    using C10_context_get [where ctx = empty_context and nm = "''z''" and T = T_double] unbound
    by simp
  have x: "get (set_variables empty_context ?hist) T_double ''x'' = Inr (VDouble 10)"
    using C10_context_get [where ctx = empty_context and nm = "''x''" and T = T_double
        and earlier = "[(''x'', DOUBLE, VDouble 1)]" and ty = DOUBLE and v = "VDouble 10"
        and later = "[(''y'', INT32, VInt32 5), (''s'', STRING, VString ''hello'')]"
        and d = 10]
    by simp
  have y: "get (set_variables empty_context ?hist) T_int32 ''y'' = Inr (VInt32 5)"
    using C10_context_get [where ctx = empty_context and nm = "''y''" and T = T_int32
        and earlier = "[(''x'', DOUBLE, VDouble 1), (''x'', DOUBLE, VDouble 10)]"
        and ty = INT32 and v = "VInt32 5" and later = "[(''s'', STRING, VString ''hello'')]"
        and ?i32.0 = 5]
    by simp
  have y': "get (set_variables empty_context ?hist) T_double ''y'' = Inl BadVariantAccess"
    using C10_context_get [where ctx = empty_context and nm = "''y''" and T = T_double
        and earlier = "[(''x'', DOUBLE, VDouble 1), (''x'', DOUBLE, VDouble 10)]"
        and ty = INT32 and v = "VInt32 5" and later = "[(''s'', STRING, VString ''hello'')]"
        and ?i32.0 = 5]
    by simp
  have s: "get (set_variables empty_context ?hist) T_string ''s'' = Inr (VString ''hello'')"
    using C10_context_get [where ctx = empty_context and nm = "''s''" and T = T_string
        and earlier = "[(''x'', DOUBLE, VDouble 1), (''x'', DOUBLE, VDouble 10),
          (''y'', INT32, VInt32 5)]"
        and ty = STRING and v = "VString ''hello''" and later = "[]" and s = "''hello''"]
    by simp
  from first x y y' s show ?thesis
    by simp
qed

section \<open>Properties of the sanitiser and of the fingerprint text\<close>

lemma sanitise_char_eq:
  "(\<lambda>c. if \<not> isalnum c \<and> c \<noteq> CHR ''_'' then CHR ''_'' else c) =
   (\<lambda>c. if isalnum c \<or> c = CHR ''_'' then c else CHR ''_'')"
  by auto

lemma isalnum_p: "isalnum CHR ''p''"
  by (simp add: isalnum_def isalpha_def)

lemma make_valid_identifier_nonempty:
  "str \<noteq> [] \<Longrightarrow> make_valid_identifier str = sanitise_as_specified str"
  by (simp add: make_valid_identifier_def sanitise_as_specified_def sanitise_char_eq isalnum_p)

lemma hex_chars_alnum: "c \<in> hex_chars \<Longrightarrow> isalnum c"
  unfolding hex_chars_def isalnum_def isalpha_def isdigit_def by auto

lemma p_not_hex: "CHR ''p'' \<notin> hex_chars"
  by (simp add: hex_chars_def)

lemma make_valid_identifier_hex:
  assumes "is_hex_string s"
  shows "make_valid_identifier s = (if isdigit (hd s) then ''p_'' @ s else s)"
proof -
  have "map (\<lambda>c. if isalnum c \<or> c = CHR ''_'' then c else CHR ''_'') s = s"
    using assms by (intro map_idI) (auto simp: is_hex_string_def hex_chars_alnum)
  with assms show ?thesis
    by (simp add: make_valid_identifier_def sanitise_char_eq isalnum_p is_hex_string_def)
qed

lemma make_valid_identifier_inj_hex:
  assumes "is_hex_string s1" "is_hex_string s2"
    and eq: "make_valid_identifier s1 = make_valid_identifier s2"
  shows "s1 = s2"
proof -
  have hd1: "hd s1 \<in> hex_chars" and hd2: "hd s2 \<in> hex_chars"
    using assms(1,2) by (auto simp: is_hex_string_def)
  have ne: "s1 \<noteq> []" "s2 \<noteq> []"
    using assms(1,2) by (auto simp: is_hex_string_def)
  show ?thesis
  proof (cases "isdigit (hd s1)")
    case d1: True
    show ?thesis
    proof (cases "isdigit (hd s2)")
      case True
      with d1 eq assms(1,2) show ?thesis
        by (simp add: make_valid_identifier_hex)
    next
      case False
      with d1 eq assms(1,2) have "''p_'' @ s1 = s2"
        by (simp add: make_valid_identifier_hex)
      then have "hd s2 = CHR ''p''" by auto
      with hd2 p_not_hex show ?thesis by simp
    qed
  next
    case d1: False
    show ?thesis
    proof (cases "isdigit (hd s2)")
      case True
      with d1 eq assms(1,2) have "s1 = ''p_'' @ s2"
        by (simp add: make_valid_identifier_hex)
      then have "hd s1 = CHR ''p''" by auto
      with hd1 p_not_hex show ?thesis by simp
    next
      case False
      with d1 eq assms(1,2) show ?thesis
        by (simp add: make_valid_identifier_hex)
    qed
  qed
qed

lemma hex_digit_in: "d < 16 \<Longrightarrow> hex_digit d \<in> hex_chars"
  unfolding hex_digit_def hex_chars_def by (rule nth_mem) simp

lemma hex_digit_inj: "d < 16 \<Longrightarrow> e < 16 \<Longrightarrow> hex_digit d = hex_digit e \<Longrightarrow> d = e"
proof -
  assume d: "d < 16" and e: "e < 16" and eq: "hex_digit d = hex_digit e"
  have dist: "distinct ''0123456789abcdef''" by simp
  have "d < length ''0123456789abcdef''" "e < length ''0123456789abcdef''"
    using d e by simp_all
  with dist eq show "d = e"
    unfolding hex_digit_def by (simp only: nth_eq_iff_index_eq)
qed

lemma to_hex_nonempty: "to_hex n \<noteq> []"
  by (subst to_hex.simps) simp

lemma to_hex_chars: "set (to_hex n) \<subseteq> hex_chars"
proof (induction n rule: to_hex.induct)
  case (1 n)
  show ?case
  proof (cases "n < 16")
    case True
    then show ?thesis
      by (subst to_hex.simps) (simp add: hex_digit_in)
  next
    case False
    with "1" have "set (to_hex (n div 16)) \<subseteq> hex_chars" by simp
    moreover have "hex_digit (n mod 16) \<in> hex_chars" by (simp add: hex_digit_in)
    ultimately show ?thesis
      using False by (subst to_hex.simps) simp
  qed
qed

lemma to_hex_is_hex: "is_hex_string (to_hex n)"
  by (simp add: is_hex_string_def to_hex_nonempty to_hex_chars)

lemma to_hex_inj: "to_hex m = to_hex n \<Longrightarrow> m = n"
proof (induction m arbitrary: n rule: to_hex.induct)
  case (1 m)
  show ?case
  proof (cases "m < 16")
    case small: True
    then have m1: "to_hex m = [hex_digit m]" by (subst to_hex.simps) simp
    show ?thesis
    proof (cases "n < 16")
      case True
      then have "to_hex n = [hex_digit n]" by (subst to_hex.simps) simp
      with m1 "1.prems" small True show ?thesis by (simp add: hex_digit_inj)
    next
      case False
      then have "to_hex n = to_hex (n div 16) @ [hex_digit (n mod 16)]"
        by (subst to_hex.simps) simp
      with m1 "1.prems" to_hex_nonempty [of "n div 16"] show ?thesis by simp
    qed
  next
    case big: False
    then have m2: "to_hex m = to_hex (m div 16) @ [hex_digit (m mod 16)]"
      by (subst to_hex.simps) simp
    show ?thesis
    proof (cases "n < 16")
      case True
      then have "to_hex n = [hex_digit n]" by (subst to_hex.simps) simp
      with m2 "1.prems" to_hex_nonempty [of "m div 16"] show ?thesis by simp
    next
      case False
      then have "to_hex n = to_hex (n div 16) @ [hex_digit (n mod 16)]"
        by (subst to_hex.simps) simp
      with m2 "1.prems" have a: "to_hex (m div 16) = to_hex (n div 16)"
        and b: "hex_digit (m mod 16) = hex_digit (n mod 16)" by simp_all
      from "1.IH" [OF big a] have q: "m div 16 = n div 16" .
      from b have r: "m mod 16 = n mod 16" by (rule hex_digit_inj [rotated 2]) simp_all
      from q r show ?thesis by (metis div_mult_mod_eq)
    qed
  qed
qed

lemma compute_fingerprint_eq_iff:
  "fst (compute_fingerprint hasher c1) = fst (compute_fingerprint hasher c2) \<longleftrightarrow>
   hasher (fingerprint_text c1) = hasher (fingerprint_text c2)"
proof -
  have "to_hex (unat a) = to_hex (unat b) \<longleftrightarrow> a = b" for a b :: "64 word"
    using to_hex_inj [of "unat a" "unat b"] by (auto simp: word_unat_eq_iff)
  then show ?thesis
    by (simp add: compute_fingerprint_def Let_def)
qed

lemma split_at_separator:
  "c \<notin> set a \<Longrightarrow> c \<notin> set a' \<Longrightarrow> a @ c # r = a' @ c # r' \<Longrightarrow> a = a' \<and> r = r'"
proof (induction a arbitrary: a')
  case Nil
  then show ?case by (cases a') auto
next
  case (Cons x a)
  then show ?case by (cases a') auto
qed

lemma plainD:
  assumes "plain s"
  shows "CHR ''|'' \<notin> set s" "CHR '':'' \<notin> set s" "CHR '','' \<notin> set s"
    "CHR ''('' \<notin> set s" "CHR '')'' \<notin> set s" "CHR '';'' \<notin> set s"
  using assms by (auto simp: plain_def separators_def)

lemma data_type_to_string_plain: "plain (data_type_to_string t)"
  by (cases t) (simp_all add: plain_def separators_def)

lemma data_type_to_string_inj: "data_type_to_string s = data_type_to_string t \<Longrightarrow> s = t"
  by (cases s; cases t; simp)

lemma input_text_split:
  assumes "plain (io_name i)" "plain (io_name j)"
    and eq: "input_text i @ R = input_text j @ R'"
  shows "io_name i = io_name j \<and> io_type i = io_type j \<and> R = R'"
proof -
  from eq have "io_name i @ CHR '':'' # (data_type_to_string (io_type i) @ CHR '','' # R) =
      io_name j @ CHR '':'' # (data_type_to_string (io_type j) @ CHR '','' # R')"
    by (simp add: input_text_def)
  from split_at_separator [OF plainD(2) [OF assms(1)] plainD(2) [OF assms(2)] this]
  have n: "io_name i = io_name j"
    and rest: "data_type_to_string (io_type i) @ CHR '','' # R =
      data_type_to_string (io_type j) @ CHR '','' # R'" by simp_all
  from split_at_separator [OF plainD(3) [OF data_type_to_string_plain]
      plainD(3) [OF data_type_to_string_plain] rest]
  have "data_type_to_string (io_type i) = data_type_to_string (io_type j)" and "R = R'"
    by simp_all
  with n show ?thesis by (simp add: data_type_to_string_inj)
qed

lemma input_text_head:
  "input_text j @ X = io_name j @ CHR '':'' # (data_type_to_string (io_type j) @ '','' @ X)"
  by (simp add: input_text_def)

lemma inputs_text_inj:
  assumes "list_all (\<lambda>input. plain (io_name input)) is"
    and "list_all (\<lambda>input. plain (io_name input)) js"
    and "concat (map input_text is) @ CHR ''|'' # S = concat (map input_text js) @ CHR ''|'' # S'"
  shows "map (\<lambda>input. (io_name input, io_type input)) is =
         map (\<lambda>input. (io_name input, io_type input)) js \<and> S = S'"
  using assms
proof (induction "is" arbitrary: js)
  case Nil
  show ?case
  proof (cases js)
    case Nil
    with Nil.prems show ?thesis by simp
  next
    case (Cons j js')
    with Nil.prems have p: "plain (io_name j)" by simp
    from Nil.prems(3) Cons
    have "CHR ''|'' # S = input_text j @ (concat (map input_text js') @ CHR ''|'' # S')"
      by simp
    then have "CHR ''|'' # S = io_name j @ CHR '':'' #
        (data_type_to_string (io_type j) @ '','' @ (concat (map input_text js') @ CHR ''|'' # S'))"
      by (simp only: input_text_head)
    with plainD(1) [OF p] show ?thesis by (cases "io_name j") auto
  qed
next
  case (Cons i is')
  show ?case
  proof (cases js)
    case Nil
    from Cons.prems have p: "plain (io_name i)" by simp
    from Cons.prems(3) Nil
    have "input_text i @ (concat (map input_text is') @ CHR ''|'' # S) = CHR ''|'' # S'"
      by simp
    then have "io_name i @ CHR '':'' #
        (data_type_to_string (io_type i) @ '','' @ (concat (map input_text is') @ CHR ''|'' # S)) =
        CHR ''|'' # S'"
      by (simp only: input_text_head)
    with plainD(1) [OF p] show ?thesis by (cases "io_name i") auto
  next
    case (Cons j js')
    from Cons.prems Cons have pi: "plain (io_name i)" and pj: "plain (io_name j)"
      and ri: "list_all (\<lambda>input. plain (io_name input)) is'"
      and rj: "list_all (\<lambda>input. plain (io_name input)) js'"
      by simp_all
    from Cons.prems(3) Cons have "input_text i @ (concat (map input_text is') @ CHR ''|'' # S) =
        input_text j @ (concat (map input_text js') @ CHR ''|'' # S')"
      by simp
    from input_text_split [OF pi pj this]
    have h: "io_name i = io_name j" "io_type i = io_type j"
      and t: "concat (map input_text is') @ CHR ''|'' # S = concat (map input_text js') @ CHR ''|'' # S'"
      by simp_all
    from Cons.IH [OF ri rj t] h Cons show ?thesis by simp
  qed
qed

lemma set_join_args: "set (join_args xs) \<subseteq> \<Union> (set ` set xs) \<union> {CHR '',''}"
  by (induction xs rule: join_args.induct) auto

lemma join_args_inj:
  assumes "list_all (\<lambda>a. a \<noteq> [] \<and> plain a) xs" "list_all (\<lambda>a. a \<noteq> [] \<and> plain a) ys"
    and "join_args xs = join_args ys"
  shows "xs = ys"
  using assms
proof (induction xs arbitrary: ys rule: join_args.induct)
  case 1
  then show ?case by (cases ys rule: join_args.cases) auto
next
  case (2 a)
  show ?case
  proof (cases ys rule: join_args.cases)
    case 1
    with 2 show ?thesis by simp
  next
    case (2 b)
    with "2.prems" show ?thesis by simp
  next
    case (3 b b' rest)
    with "2.prems" have "CHR '','' \<in> set a" by auto
    moreover from "2.prems" have "plain a" by simp
    ultimately show ?thesis using plainD(3) by blast
  qed
next
  case (3 a a' rest)
  show ?case
  proof (cases ys rule: join_args.cases)
    case 1
    with "3.prems" show ?thesis by simp
  next
    case (2 b)
    with "3.prems" have "CHR '','' \<in> set b" by (metis join_args.simps(2,3) in_set_conv_decomp append_Cons append_Nil)
    moreover from "3.prems" 2 have "plain b" by simp
    ultimately show ?thesis using plainD(3) by blast
  next
    case ys: (3 b b' rest')
    from "3.prems" ys have pa: "plain a" and pb: "plain b" by simp_all
    from "3.prems"(3) ys have "a @ CHR '','' # join_args (a' # rest) = b @ CHR '','' # join_args (b' # rest')"
      by simp
    from split_at_separator [OF plainD(3) [OF pa] plainD(3) [OF pb] this]
    have ab: "a = b" and j: "join_args (a' # rest) = join_args (b' # rest')" by simp_all
    from "3.prems" ys have "list_all (\<lambda>a. a \<noteq> [] \<and> plain a) (a' # rest)"
      "list_all (\<lambda>a. a \<noteq> [] \<and> plain a) (b' # rest')" by simp_all
    from "3.IH" [OF this j] ab ys show ?thesis by simp
  qed
qed

lemma join_args_no_paren:
  assumes "list_all (\<lambda>a. a \<noteq> [] \<and> plain a) xs"
  shows "CHR '')'' \<notin> set (join_args xs)"
proof
  assume "CHR '')'' \<in> set (join_args xs)"
  with set_join_args [of xs] obtain a where "a \<in> set xs" "CHR '')'' \<in> set a" by auto
  with assms plainD(5) [of a] show False by (auto simp: list_all_iff)
qed

lemma step_text_split:
  assumes s: "plain (op_name s)" "plain (output_var s)"
      "list_all (\<lambda>a. arg_value a \<noteq> [] \<and> plain (arg_value a)) (args s)"
    and t: "plain (op_name t)" "plain (output_var t)"
      "list_all (\<lambda>a. arg_value a \<noteq> [] \<and> plain (arg_value a)) (args t)"
    and eq: "step_text s @ R = step_text t @ R'"
  shows "op_name s = op_name t \<and> map arg_value (args s) = map arg_value (args t)
    \<and> output_var s = output_var t \<and> R = R'"
proof -
  let ?js = "join_args (map arg_value (args s))" and ?jt = "join_args (map arg_value (args t))"
  have as: "list_all (\<lambda>a. a \<noteq> [] \<and> plain a) (map arg_value (args s))"
    and at: "list_all (\<lambda>a. a \<noteq> [] \<and> plain a) (map arg_value (args t))"
    using s(3) t(3) by (simp_all add: list_all_iff)
  from eq have "op_name s @ CHR ''('' # (?js @ CHR '')'' # (''->'' @ output_var s @ CHR '';'' # R)) =
      op_name t @ CHR ''('' # (?jt @ CHR '')'' # (''->'' @ output_var t @ CHR '';'' # R'))"
    by (simp add: step_text_def)
  from split_at_separator [OF plainD(4) [OF s(1)] plainD(4) [OF t(1)] this]
  have op: "op_name s = op_name t"
    and r1: "?js @ CHR '')'' # (''->'' @ output_var s @ CHR '';'' # R) =
      ?jt @ CHR '')'' # (''->'' @ output_var t @ CHR '';'' # R')" by simp_all
  from split_at_separator [OF join_args_no_paren [OF as] join_args_no_paren [OF at] r1]
  have j: "?js = ?jt" and r2: "output_var s @ CHR '';'' # R = output_var t @ CHR '';'' # R'"
    by simp_all
  from split_at_separator [OF plainD(6) [OF s(2)] plainD(6) [OF t(2)] r2]
  have out: "output_var s = output_var t" and R: "R = R'" by simp_all
  from join_args_inj [OF as at j] op out R show ?thesis by simp
qed

lemma step_text_nonempty: "step_text s @ R \<noteq> []"
  by (simp add: step_text_def)

lemma steps_text_inj:
  assumes "list_all (\<lambda>step. plain (op_name step) \<and> plain (output_var step)
            \<and> list_all (\<lambda>a. arg_value a \<noteq> [] \<and> plain (arg_value a)) (args step)) ss"
    and "list_all (\<lambda>step. plain (op_name step) \<and> plain (output_var step)
            \<and> list_all (\<lambda>a. arg_value a \<noteq> [] \<and> plain (arg_value a)) (args step)) ts"
    and "concat (map step_text ss) = concat (map step_text ts)"
  shows "map (\<lambda>step. (op_name step, map arg_value (args step), output_var step)) ss =
         map (\<lambda>step. (op_name step, map arg_value (args step), output_var step)) ts"
  using assms
proof (induction ss arbitrary: ts)
  case Nil
  then show ?case using step_text_nonempty by (cases ts) auto
next
  case (Cons s ss)
  show ?case
  proof (cases ts)
    case Nil
    with Cons.prems show ?thesis using step_text_nonempty [of s] by auto
  next
    case (Cons t ts')
    from Cons.prems(3) Cons have eq: "step_text s @ concat (map step_text ss) =
        step_text t @ concat (map step_text ts')" by simp
    from Cons.prems Cons have
      "plain (op_name s)" "plain (output_var s)"
      "list_all (\<lambda>a. arg_value a \<noteq> [] \<and> plain (arg_value a)) (args s)"
      "plain (op_name t)" "plain (output_var t)"
      "list_all (\<lambda>a. arg_value a \<noteq> [] \<and> plain (arg_value a)) (args t)"
      by simp_all
    from step_text_split [OF this eq]
    have h: "op_name s = op_name t" "map arg_value (args s) = map arg_value (args t)"
      "output_var s = output_var t"
      and r: "concat (map step_text ss) = concat (map step_text ts')" by simp_all
    from Cons.prems Cons have
      "list_all (\<lambda>step. plain (op_name step) \<and> plain (output_var step)
            \<and> list_all (\<lambda>a. arg_value a \<noteq> [] \<and> plain (arg_value a)) (args step)) ss"
      "list_all (\<lambda>step. plain (op_name step) \<and> plain (output_var step)
            \<and> list_all (\<lambda>a. arg_value a \<noteq> [] \<and> plain (arg_value a)) (args step)) ts'"
      by simp_all
    from Cons.IH [OF this r] h Cons show ?thesis by simp
  qed
qed

lemma fingerprint_text_inj:
  assumes "separator_free c1" "separator_free c2"
    and eq: "fingerprint_text c1 = fingerprint_text c2"
  shows "fingerprint_domain c1 = fingerprint_domain c2"
proof -
  from eq have "name c1 @ CHR ''|'' # (concat (map input_text (inputs c1)) @ CHR ''|'' # concat (map step_text (steps c1))) =
     name c2 @ CHR ''|'' # (concat (map input_text (inputs c2)) @ CHR ''|'' # concat (map step_text (steps c2)))"
    by (simp add: fingerprint_text_def)
  from split_at_separator [OF plainD(1) plainD(1) this] assms(1,2)
  have n: "name c1 = name c2"
    and r: "concat (map input_text (inputs c1)) @ CHR ''|'' # concat (map step_text (steps c1)) =
      concat (map input_text (inputs c2)) @ CHR ''|'' # concat (map step_text (steps c2))"
    by (simp_all add: separator_free_def)
  from inputs_text_inj [OF _ _ r] assms(1,2)
  have i: "map (\<lambda>input. (io_name input, io_type input)) (inputs c1) =
         map (\<lambda>input. (io_name input, io_type input)) (inputs c2)"
    and s: "concat (map step_text (steps c1)) = concat (map step_text (steps c2))"
    by (simp_all add: separator_free_def)
  from steps_text_inj [OF _ _ s] assms(1,2)
  have "map (\<lambda>step. (op_name step, map arg_value (args step), output_var step)) (steps c1) =
         map (\<lambda>step. (op_name step, map arg_value (args step), output_var step)) (steps c2)"
    by (simp add: separator_free_def)
  with n i show ?thesis by (simp add: fingerprint_domain_def)
qed

lemma fingerprint_text_domain:
  "fingerprint_domain c1 = fingerprint_domain c2 \<Longrightarrow> fingerprint_text c1 = fingerprint_text c2"
proof -
  assume d: "fingerprint_domain c1 = fingerprint_domain c2"
  have i: "map input_text (inputs c) =
      map (\<lambda>(n, t). n @ '':'' @ data_type_to_string t @ '','')
        (map (\<lambda>input. (io_name input, io_type input)) (inputs c))" for c
    by (simp add: input_text_def comp_def)
  have s: "map step_text (steps c) =
      map (\<lambda>(op, as, out). op @ ''('' @ join_args as @ '')->'' @ out @ '';'')
        (map (\<lambda>step. (op_name step, map arg_value (args step), output_var step)) (steps c))" for c
    by (simp add: step_text_def comp_def)
  from d show ?thesis
    unfolding fingerprint_text_def i s by (simp add: fingerprint_domain_def)
qed

section \<open>Claims about the fingerprint and the entry symbol\<close>

text \<open>
  Against claim C2 as stated: two configurations that differ in a field of the
  fingerprint domain (the argument list of a step) and have the same fingerprint for
  every hash function, because \<^verbatim>\<open>compute_fingerprint\<close> writes the same text for both.
\<close>

theorem C2_fingerprint_collision_counterexample:
  "fingerprint_domain config_two_args \<noteq> fingerprint_domain config_comma_arg
   \<and> (\<forall>hasher. fst (compute_fingerprint hasher config_two_args) =
                fst (compute_fingerprint hasher config_comma_arg))"
proof -
  have "fingerprint_domain config_two_args \<noteq> fingerprint_domain config_comma_arg"
    by (simp add: fingerprint_domain_def config_two_args_def config_comma_arg_def
        Arg_variable_def Arg_literal_def)
  moreover have "fingerprint_text config_two_args = fingerprint_text config_comma_arg"
    by (simp add: fingerprint_text_def step_text_def config_two_args_def config_comma_arg_def
        Arg_variable_def Arg_literal_def)
  ultimately show ?thesis
    by (simp add: compute_fingerprint_eq_iff)
qed

text \<open>
  Claim C2, amended. Two configurations that agree on the fingerprint domain (pipeline
  name, ordered input names and types, and per step the operator name, the argument
  texts in order and the output variable) get the same fingerprint, whatever their
  variables, outputs, argument type tags, step options and previous fingerprint are.
  The fingerprint is the hexadecimal form of the hash of the text
  \<^verbatim>\<open>name|in:type,...|op(arg,...)->out;...\<close>, so two fingerprints differ exactly when
  the hash separates the two texts; and the texts of two configurations that differ on
  the fingerprint domain are different whenever no name, operator name, argument text or
  output variable contains one of the characters \<^verbatim>\<open>| : , ( ) ;\<close> and no argument text
  is empty. The hash function \<^verbatim>\<open>std::hash<std::string>\<close> is a parameter.
\<close>

theorem C2_fingerprint_determinism:
  "(fingerprint_domain c1 = fingerprint_domain c2 \<longrightarrow>
      fst (compute_fingerprint hasher c1) = fst (compute_fingerprint hasher c2))
   \<and> (fst (compute_fingerprint hasher c1) = fst (compute_fingerprint hasher c2) \<longleftrightarrow>
      hasher (fingerprint_text c1) = hasher (fingerprint_text c2))
   \<and> (separator_free c1 \<and> separator_free c2
        \<and> fingerprint_domain c1 \<noteq> fingerprint_domain c2 \<longrightarrow>
      fingerprint_text c1 \<noteq> fingerprint_text c2)"
proof (intro conjI impI)
  assume "fingerprint_domain c1 = fingerprint_domain c2"
  then have "fingerprint_text c1 = fingerprint_text c2"
    by (rule fingerprint_text_domain)
  then show "fst (compute_fingerprint hasher c1) = fst (compute_fingerprint hasher c2)"
    by (simp add: compute_fingerprint_eq_iff)
next
  show "fst (compute_fingerprint hasher c1) = fst (compute_fingerprint hasher c2) \<longleftrightarrow>
      hasher (fingerprint_text c1) = hasher (fingerprint_text c2)"
    by (rule compute_fingerprint_eq_iff)
next
  assume "separator_free c1 \<and> separator_free c2
    \<and> fingerprint_domain c1 \<noteq> fingerprint_domain c2"
  then show "fingerprint_text c1 \<noteq> fingerprint_text c2"
    using fingerprint_text_inj [of c1 c2] by blast
qed

lemma separator_free_examples:
  "separator_free config_two_args" "separator_free config_sub"
  by (simp_all add: separator_free_def plain_def separators_def config_two_args_def
      config_sub_def Arg_variable_def)

theorem C2_fingerprint_determinism_witness:
  "fingerprint_domain config_two_args = fingerprint_domain config_other_tags
   \<and> fst (compute_fingerprint (\<lambda>s. word_of_nat (length s)) config_two_args) =
      fst (compute_fingerprint (\<lambda>s. word_of_nat (length s)) config_other_tags)
   \<and> separator_free config_two_args \<and> separator_free config_sub
   \<and> fingerprint_domain config_two_args \<noteq> fingerprint_domain config_sub
   \<and> fingerprint_text config_two_args \<noteq> fingerprint_text config_sub"
proof -
  have same: "fingerprint_domain config_two_args = fingerprint_domain config_other_tags"
    by (simp add: fingerprint_domain_def config_two_args_def config_other_tags_def
        Arg_variable_def Arg_literal_def)
  have differ: "fingerprint_domain config_two_args \<noteq> fingerprint_domain config_sub"
    by (simp add: fingerprint_domain_def config_two_args_def config_sub_def)
  from C2_fingerprint_determinism [of config_two_args config_other_tags "\<lambda>s. word_of_nat (length s)"]
    C2_fingerprint_determinism [of config_two_args config_sub]
    same differ separator_free_examples
  show ?thesis by blast
qed

text \<open>
  Against claim C3 as stated: for the empty fingerprint the code returns the fixed name
  \<^verbatim>\<open>p_invalid\<close>, where the sanitisation the claim describes would leave the empty string.
\<close>

theorem C3_empty_fingerprint_counterexample:
  "entry_symbol [] \<noteq> ''pipeline_execute_'' @ sanitise_as_specified []"
  by (simp add: entry_symbol_def make_valid_identifier_def sanitise_as_specified_def)

text \<open>
  Claim C3, amended. For every non-empty fingerprint the entry symbol is
  \<^verbatim>\<open>pipeline_execute_\<close> followed by the fingerprint in which every character that is
  neither alphanumeric nor an underscore is replaced by an underscore, with \<^verbatim>\<open>p_\<close> in
  front when the first character is a digit; the empty fingerprint gives
  \<^verbatim>\<open>pipeline_execute_p_invalid\<close>; the fingerprint \<^verbatim>\<open>123abc\<close> gives
  \<^verbatim>\<open>pipeline_execute_p_123abc\<close>.
\<close>

theorem C3_entry_symbol:
  "(fp \<noteq> [] \<longrightarrow> entry_symbol fp = ''pipeline_execute_'' @ sanitise_as_specified fp)
   \<and> entry_symbol [] = ''pipeline_execute_p_invalid''
   \<and> entry_symbol ''123abc'' = ''pipeline_execute_p_123abc''"
proof (intro conjI impI)
  assume "fp \<noteq> []"
  then show "entry_symbol fp = ''pipeline_execute_'' @ sanitise_as_specified fp"
    by (simp add: entry_symbol_def make_valid_identifier_nonempty)
next
  show "entry_symbol [] = ''pipeline_execute_p_invalid''"
    by (simp add: entry_symbol_def make_valid_identifier_def)
next
  have "sanitise_as_specified ''123abc'' = ''p_123abc''"
    by (simp add: sanitise_as_specified_def isdigit_def isalnum_def isalpha_def)
  then show "entry_symbol ''123abc'' = ''pipeline_execute_p_123abc''"
    by (simp add: entry_symbol_def make_valid_identifier_nonempty)
qed

theorem C3_entry_symbol_witness:
  "entry_symbol ''7a-b.c'' = ''pipeline_execute_p_7a_b_c''"
proof -
  have "sanitise_as_specified ''7a-b.c'' = ''p_7a_b_c''"
    by (simp add: sanitise_as_specified_def isdigit_def isalnum_def isalpha_def)
  with C3_entry_symbol [of "''7a-b.c''"] show ?thesis by simp
qed

text \<open>
  Against claim C4 as stated: the fingerprint field is an arbitrary string, and the two
  distinct strings \<^verbatim>\<open>a-b\<close> and \<^verbatim>\<open>a_b\<close> are sanitised to the same entry symbol.
\<close>

theorem C4_sanitiser_collision_counterexample:
  "''a-b'' \<noteq> ''a_b'' \<and> entry_symbol ''a-b'' = entry_symbol ''a_b''"
  by (simp add: entry_symbol_def make_valid_identifier_def isdigit_def isalnum_def isalpha_def)

text \<open>
  Claim C4, amended. Two distinct fingerprints that are non-empty lowercase hexadecimal
  strings have distinct entry symbols, and every fingerprint that
  \<^verbatim>\<open>compute_fingerprint\<close> returns is such a string.
\<close>

theorem C4_symbol_uniqueness:
  "(is_hex_string s1 \<and> is_hex_string s2 \<and> s1 \<noteq> s2 \<longrightarrow> entry_symbol s1 \<noteq> entry_symbol s2)
   \<and> is_hex_string (fst (compute_fingerprint hasher config))"
proof (intro conjI impI)
  assume "is_hex_string s1 \<and> is_hex_string s2 \<and> s1 \<noteq> s2"
  then show "entry_symbol s1 \<noteq> entry_symbol s2"
    using make_valid_identifier_inj_hex [of s1 s2] by (auto simp: entry_symbol_def)
next
  show "is_hex_string (fst (compute_fingerprint hasher config))"
    by (simp add: compute_fingerprint_def Let_def to_hex_is_hex)
qed

theorem C4_symbol_uniqueness_witness:
  "is_hex_string ''1f'' \<and> is_hex_string ''f1''
   \<and> entry_symbol ''1f'' \<noteq> entry_symbol ''f1''"
proof -
  have h: "is_hex_string ''1f''" "is_hex_string ''f1''"
    by (simp_all add: is_hex_string_def hex_chars_def)
  with C4_symbol_uniqueness [of "''1f''" "''f1''"] show ?thesis by simp
qed

section \<open>Claims about validation and the compile cache\<close>

lemma get_operator_add: "map_option param_count (get_operator ''add'') = Some 2"
  by (simp add: get_operator_def register_all_operators_def register_operator_def)

lemma validate_steps_iff:
  "validate_steps ss \<longleftrightarrow> list_all (\<lambda>step. op_name step \<noteq> [] \<and> output_var step \<noteq> []) ss"
  by (induction ss) auto

text \<open>
  Against claim C8 as stated: a configuration whose only step calls \<^verbatim>\<open>add\<close>, an operator
  of the catalog with declared arity 2, with one argument; validation accepts it.
\<close>

theorem C8_arity_not_checked_counterexample:
  "map_option param_count (get_operator (op_name (hd (steps config_add_one_arg)))) = Some 2
   \<and> int (length (args (hd (steps config_add_one_arg)))) = 1
   \<and> validate config_add_one_arg"
proof -
  have "op_name (hd (steps config_add_one_arg)) = ''add''"
    by (simp add: config_add_one_arg_def)
  moreover have "int (length (args (hd (steps config_add_one_arg)))) = 1"
    by (simp add: config_add_one_arg_def)
  moreover have "validate config_add_one_arg"
    by (simp add: validate_def config_add_one_arg_def)
  ultimately show ?thesis
    by (simp add: get_operator_add)
qed

text \<open>
  Claim C8, amended. Validation accepts a configuration exactly when the pipeline name is
  not empty and every step has a non-empty operator name and a non-empty output variable;
  neither the catalog nor the number of arguments of a step is consulted.
\<close>

theorem C8_validate:
  "validate config \<longleftrightarrow>
     name config \<noteq> []
     \<and> list_all (\<lambda>step. op_name step \<noteq> [] \<and> output_var step \<noteq> []) (steps config)"
  by (simp add: validate_def validate_steps_iff)

theorem C8_validate_witness:
  "validate config_add_one_arg \<and> \<not> validate (config_add_one_arg\<lparr>name := []\<rparr>)"
  using C8_validate [of config_add_one_arg] C8_validate [of "config_add_one_arg\<lparr>name := []\<rparr>"]
  by (simp add: config_add_one_arg_def)

text \<open>
  Against claim C7 as stated: a cache entry whose shared object is on disk while its
  source file is not; the entry is reported invalid.
\<close>

theorem C7_source_required_counterexample:
  "[''ab12'' \<mapsto> example_entry] ''ab12'' = Some example_entry
   \<and> file_exists fs_artifact_only (so_path example_entry)
   \<and> \<not> is_valid fs_artifact_only [''ab12'' \<mapsto> example_entry] ''ab12''"
  by (simp add: is_valid_def file_exists_def file_size_def fs_artifact_only_def example_entry_def)

text \<open>
  Claim C7, amended. A fingerprint is reported valid exactly when the cache holds an entry
  for it and \<^verbatim>\<open>stat\<close> succeeds both on the entry's shared object and on its source file.
  Readability of the files is not tested.
\<close>

theorem C7_is_valid:
  "is_valid fs cache fp \<longleftrightarrow>
     (\<exists>entry. cache fp = Some entry
        \<and> file_exists fs (so_path entry) \<and> file_exists fs (source_path entry))"
  by (auto simp: is_valid_def file_exists_def file_size_def Let_def split: option.splits)

theorem C7_is_valid_witness:
  "is_valid fs_artifact_and_source [''ab12'' \<mapsto> example_entry] ''ab12''
   \<and> \<not> is_valid fs_artifact_and_source Map.empty ''ab12''"
  using C7_is_valid [of fs_artifact_and_source "[''ab12'' \<mapsto> example_entry]" "''ab12''"]
    C7_is_valid [of fs_artifact_and_source Map.empty "''ab12''"]
  by (simp add: file_exists_def fs_artifact_and_source_def example_entry_def)

section \<open>Claims about the operators, the interpreter and the JIT executor\<close>

lemma get_arg_value_double:
  "arg_type arg = VARIABLE \<Longrightarrow>
   ctx_variables ctx (arg_value arg) = Some var \<Longrightarrow> var_value var = VDouble d \<Longrightarrow>
   get_arg_value stod arg ctx = VDouble d"
  by (simp add: get_arg_value_def has_variable_def get_def std_get_def)

lemma get_arg_value_int32:
  "arg_type arg = VARIABLE \<Longrightarrow>
   ctx_variables ctx (arg_value arg) = Some var \<Longrightarrow> var_value var = VInt32 w \<Longrightarrow>
   get_arg_value stod arg ctx = VDouble (real_of_int (sint w))"
  by (simp add: get_arg_value_def has_variable_def get_def std_get_def)

lemma get_arg_value_literal:
  "arg_type arg = LITERAL \<Longrightarrow> stod (arg_value arg) = Some d \<Longrightarrow>
   get_arg_value stod arg ctx = VDouble d"
  by (simp add: get_arg_value_def)

lemma execute_op_sqrt:
  "execute_op stod sqrt_call (set_variable ctx ''x'' DOUBLE (VDouble a)) =
     Inr (set_variable (set_variable ctx ''x'' DOUBLE (VDouble a)) ''y'' DOUBLE (VDouble (sqrt \<bar>a\<bar>)))"
proof -
  have "get_arg_value stod (Arg_variable ''x'' DOUBLE) (set_variable ctx ''x'' DOUBLE (VDouble a)) = VDouble a"
    by (rule get_arg_value_double [where var = "\<lparr>var_name = ''x'', var_type = DOUBLE, var_value = VDouble a\<rparr>"])
      (simp_all add: Arg_variable_def ctx_variables_set_variable)
  then show ?thesis
    by (simp add: execute_op_def sqrt_call_def OpCallBuilder_def Let_def get_double_def arg_at_def
        bind_result_def)
qed

lemma execute_op_div:
  "execute_op stod div_call
     (set_variable (set_variable ctx ''a'' DOUBLE (VDouble a)) ''b'' DOUBLE (VDouble b)) =
   Inr (set_variable (set_variable (set_variable ctx ''a'' DOUBLE (VDouble a)) ''b'' DOUBLE (VDouble b))
          ''y'' DOUBLE (VDouble (div_op a b)))"
proof -
  let ?ctx = "set_variable (set_variable ctx ''a'' DOUBLE (VDouble a)) ''b'' DOUBLE (VDouble b)"
  have a: "get_arg_value stod (Arg_variable ''a'' DOUBLE) ?ctx = VDouble a"
    by (rule get_arg_value_double [where var = "\<lparr>var_name = ''a'', var_type = DOUBLE, var_value = VDouble a\<rparr>"])
      (simp_all add: Arg_variable_def ctx_variables_set_variable)
  have b: "get_arg_value stod (Arg_variable ''b'' DOUBLE) ?ctx = VDouble b"
    by (rule get_arg_value_double [where var = "\<lparr>var_name = ''b'', var_type = DOUBLE, var_value = VDouble b\<rparr>"])
      (simp_all add: Arg_variable_def ctx_variables_set_variable)
  show ?thesis
    by (simp add: execute_op_def div_call_def OpCallBuilder_def Let_def get_double_def arg_at_def
        bind_result_def a b div_op_def)
qed

lemma sqrt_op_negative: "v < 0 \<Longrightarrow> sqrt_op v = 0"
  by (simp add: sqrt_op_def)

text \<open>
  Claim C1. Division by zero gives zero in the operator library and in the interpreter
  alike: the interpreter's \<^verbatim>\<open>div\<close> step stores what \<^verbatim>\<open>div_op\<close> returns
  (\<open>execute_op_div\<close>), which is \<open>0\<close> for a zero divisor. For the square root the two
  differ: on the input \<open>-4\<close> the library operator \<^verbatim>\<open>sqrt_op\<close> returns \<open>0\<close>, as the
  claim says (and so on every negative input, \<open>sqrt_op_negative\<close>), while the
  interpreter's \<^verbatim>\<open>sqrt\<close> step stores \<open>2\<close>, the root of the absolute value.
\<close>

theorem C1_interpreter_sqrt_negative:
  "div_op a 0 = 0
   \<and> bind_result
        (execute_op stod div_call
           (set_variable (set_variable empty_context ''a'' DOUBLE (VDouble a))
              ''b'' DOUBLE (VDouble 0)))
        (\<lambda>ctx. get ctx T_double ''y'') = Inr (VDouble 0)
   \<and> sqrt_op (- 4) = 0
   \<and> bind_result
        (execute_op stod sqrt_call (set_variable empty_context ''x'' DOUBLE (VDouble (- 4))))
        (\<lambda>ctx. get ctx T_double ''y'') = Inr (VDouble 2)"
proof (intro conjI)
  show d: "div_op a 0 = 0"
    by (simp add: div_op_def)
  show "bind_result
        (execute_op stod div_call
           (set_variable (set_variable empty_context ''a'' DOUBLE (VDouble a))
              ''b'' DOUBLE (VDouble 0)))
        (\<lambda>ctx. get ctx T_double ''y'') = Inr (VDouble 0)"
    using get_set_variable_same [of _ "''y''" DOUBLE "VDouble 0"]
    by (simp add: execute_op_div bind_result_def d)
  show "sqrt_op (- 4) = 0"
    by (simp add: sqrt_op_def)
  show "bind_result
        (execute_op stod sqrt_call (set_variable empty_context ''x'' DOUBLE (VDouble (- 4))))
        (\<lambda>ctx. get ctx T_double ''y'') = Inr (VDouble 2)"
    using get_set_variable_same [of _ "''y''" DOUBLE "VDouble 2"]
    by (simp add: execute_op_sqrt bind_result_def)
qed

lemma demo_steps:
  "steps (create_demo_config hasher) =
     [OpCallBuilder ''add'' ''temp_sum''
        [Arg_variable ''price_a'' DOUBLE, Arg_variable ''price_b'' DOUBLE],
      OpCallBuilder ''mul'' ''temp_product''
        [Arg_variable ''temp_sum'' DOUBLE, Arg_variable ''volume'' INT32],
      OpCallBuilder ''div'' ''final_score''
        [Arg_variable ''temp_product'' DOUBLE, Arg_literal ''100'' DOUBLE]]"
  by (simp add: create_demo_config_def compute_fingerprint_def Let_def)

lemma demo_inputs:
  "inputs (create_demo_config hasher) =
     [\<lparr>io_name = ''price_a'', io_type = DOUBLE, io_required = True\<rparr>,
      \<lparr>io_name = ''price_b'', io_type = DOUBLE, io_required = True\<rparr>,
      \<lparr>io_name = ''volume'', io_type = INT32, io_required = True\<rparr>]"
  by (simp add: create_demo_config_def compute_fingerprint_def Let_def)

lemma demo_interpreter_final_score:
  assumes "stod ''100'' = Some 100"
  shows "\<exists>ctx'. execute stod (create_demo_config hasher) demo_context = Inr ctx'
           \<and> get ctx' T_double ''final_score'' = Inr (VDouble 15)"
proof -
  let ?c0 = demo_context
  let ?c1 = "set_variable ?c0 ''temp_sum'' DOUBLE (VDouble 150)"
  let ?c2 = "set_variable ?c1 ''temp_product'' DOUBLE (VDouble 1500)"
  let ?c3 = "set_variable ?c2 ''final_score'' DOUBLE (VDouble 15)"
  have s1: "execute_op stod (OpCallBuilder ''add'' ''temp_sum''
        [Arg_variable ''price_a'' DOUBLE, Arg_variable ''price_b'' DOUBLE]) ?c0 = Inr ?c1"
  proof -
    have a: "get_arg_value stod (Arg_variable ''price_a'' DOUBLE) ?c0 = VDouble 100"
      by (rule get_arg_value_double [where var = "\<lparr>var_name = ''price_a'', var_type = DOUBLE, var_value = VDouble 100\<rparr>"])
        (simp_all add: Arg_variable_def demo_context_def ctx_variables_set_variable)
    have b: "get_arg_value stod (Arg_variable ''price_b'' DOUBLE) ?c0 = VDouble 50"
      by (rule get_arg_value_double [where var = "\<lparr>var_name = ''price_b'', var_type = DOUBLE, var_value = VDouble 50\<rparr>"])
        (simp_all add: Arg_variable_def demo_context_def ctx_variables_set_variable)
    show ?thesis
      by (simp add: execute_op_def OpCallBuilder_def Let_def get_double_def arg_at_def
          bind_result_def a b)
  qed
  have s2: "execute_op stod (OpCallBuilder ''mul'' ''temp_product''
        [Arg_variable ''temp_sum'' DOUBLE, Arg_variable ''volume'' INT32]) ?c1 = Inr ?c2"
  proof -
    have a: "get_arg_value stod (Arg_variable ''temp_sum'' DOUBLE) ?c1 = VDouble 150"
      by (rule get_arg_value_double [where var = "\<lparr>var_name = ''temp_sum'', var_type = DOUBLE, var_value = VDouble 150\<rparr>"])
        (simp_all add: Arg_variable_def ctx_variables_set_variable)
    have b: "get_arg_value stod (Arg_variable ''volume'' INT32) ?c1 = VDouble (real_of_int (sint (10 :: 32 word)))"
      by (rule get_arg_value_int32 [where var = "\<lparr>var_name = ''volume'', var_type = INT32, var_value = VInt32 10\<rparr>"])
        (simp_all add: Arg_variable_def demo_context_def ctx_variables_set_variable)
    show ?thesis
      by (simp add: execute_op_def OpCallBuilder_def Let_def get_double_def arg_at_def
          bind_result_def a b)
  qed
  have s3: "execute_op stod (OpCallBuilder ''div'' ''final_score''
        [Arg_variable ''temp_product'' DOUBLE, Arg_literal ''100'' DOUBLE]) ?c2 = Inr ?c3"
  proof -
    have a: "get_arg_value stod (Arg_variable ''temp_product'' DOUBLE) ?c2 = VDouble 1500"
      by (rule get_arg_value_double [where var = "\<lparr>var_name = ''temp_product'', var_type = DOUBLE, var_value = VDouble 1500\<rparr>"])
        (simp_all add: Arg_variable_def ctx_variables_set_variable)
    have b: "get_arg_value stod (Arg_literal ''100'' DOUBLE) ?c2 = VDouble 100"
      by (rule get_arg_value_literal) (simp_all add: Arg_literal_def assms)
    show ?thesis
      by (simp add: execute_op_def OpCallBuilder_def Let_def get_double_def arg_at_def
          bind_result_def a b)
  qed
  have "execute stod (create_demo_config hasher) demo_context = Inr ?c3"
    by (simp add: execute_def demo_steps s1 s2 s3)
  moreover have "get ?c3 T_double ''final_score'' = Inr (VDouble 15)"
    using get_set_variable_same [of ?c2 "''final_score''" DOUBLE "VDouble 15"] by simp
  ultimately show ?thesis by blast
qed

subsection \<open>avg_avg_log\<close>












lemma show_nat_small: "n < 10 \<Longrightarrow> show_nat n = [dec_digit n]"
  by (subst show_nat.simps) simp

lemma demo_emitted_unpack:
  "generate_input_unpacks 0 (inputs (create_demo_config hasher)) =
     [''    if (input_data) {'',
      ''        double* arr = static_cast<double*>(input_data);'',
      ''        ctx.price_a = arr[0];'',
      ''    }'', '''',
      ''    if (input_data) {'',
      ''        double* arr = static_cast<double*>(input_data);'',
      ''        ctx.price_b = arr[1];'',
      ''    }'', '''',
      ''    if (input_data) {'',
      ''        int32_t* arr = static_cast<int32_t*>(input_data);'',
      ''        ctx.volume = arr[2];'',
      ''    }'', '''']"
  by (simp add: demo_inputs generate_input_unpack_def show_nat_small dec_digit_def
      numeral_2_eq_2)

lemma get_operator_demo:
  "get_operator ''add'' = Some \<lparr>config_name = ''add'', function_name = ''add_op'',
     return_type = DOUBLE, param_count = 2, needs_template = True, default_template = ''double''\<rparr>"
  "get_operator ''mul'' = Some \<lparr>config_name = ''mul'', function_name = ''mul_op'',
     return_type = DOUBLE, param_count = 2, needs_template = True, default_template = ''double''\<rparr>"
  "get_operator ''div'' = Some \<lparr>config_name = ''div'', function_name = ''div_op'',
     return_type = DOUBLE, param_count = 2, needs_template = True, default_template = ''double''\<rparr>"
  by (simp_all add: get_operator_def register_all_operators_def register_operator_def)

lemma demo_emitted_steps:
  "concat (map generate_op_call (steps (create_demo_config hasher))) =
     [''    // add -> temp_sum'',
      ''    ctx.temp_sum = ::turbograph::ops::add_op<double>(ctx.price_a, ctx.price_b);'', '''',
      ''    // mul -> temp_product'',
      ''    ctx.temp_product = ::turbograph::ops::mul_op<double>(ctx.temp_sum, ctx.volume);'', '''',
      ''    // div -> final_score'',
      ''    ctx.final_score = ::turbograph::ops::div_op<double>(ctx.temp_product, 100);'', '''']"
  by (simp add: demo_steps generate_op_call_def generate_op_call_code_def OpCallBuilder_def
      get_operator_demo infer_output_type_def generate_arg_code_def Arg_variable_def Arg_literal_def)

lemma demo_bits:
  "double_of_bits 0x4059000000000000 = Some 100"
  "double_of_bits 0x4049000000000000 = Some 50"
  "int32_view [0x4059000000000000, 0x4049000000000000] 2 = Some 0"
  by (simp_all add: double_of_bits_def int32_view_def Let_def)

lemma demo_marshal:
  "marshal_inputs (inputs (create_demo_config hasher))
     (set_variable demo_context ''volume'' INT32 (VInt32 v)) = Inr ([100, 50], [v])"
  by (simp add: demo_inputs demo_context_def get_def ctx_variables_set_variable std_get_def
      bind_result_def)

lemma demo_jit:
  "bind_result
     (jit_execute (Some entry) (create_demo_config hasher)
        (set_variable demo_context ''volume'' INT32 (VInt32 v)))
     (\<lambda>(ok, ctx'). get ctx' T_double ''final_score'') =
   (if snd (entry [100, 50] [0]) \<noteq> []
    then Inr (VDouble (snd (entry [100, 50] [0]) ! 0))
    else Inl UndefinedBehaviour)"
proof -
  have outs: "outputs (create_demo_config hasher) =
      [\<lparr>io_name = ''final_score'', io_type = DOUBLE, io_required = False\<rparr>]"
    by (simp add: create_demo_config_def compute_fingerprint_def Let_def)
  obtain ok ds where e: "entry [100, 50] [0] = (ok, ds)" by (cases "entry [100, 50] [0]")
  show ?thesis
    by (simp add: jit_execute_def demo_marshal outs demo_steps bind_result_def e
        OpCallBuilder_def get_set_variable_same [of _ _ _ "VDouble x" for x, simplified])
qed

lemma demo_context_volume:
  "set_variable demo_context ''volume'' INT32 (VInt32 10) = demo_context"
  by (simp add: demo_context_def set_variable_def)

text \<open>
  Claim C5. Under the interpreter the demo pipeline succeeds and yields
  \<open>final_score = 15\<close>, given that \<^verbatim>\<open>std::stod\<close> reads the literal \<^verbatim>\<open>100\<close> as 100.
  Under the JIT executor it cannot: the only input
  array handed to the entry is \<open>[100, 50]\<close>, the value of \<open>volume\<close> stays in a vector
  that is never passed, so \<open>final_score\<close> is the same for every \<open>volume\<close> and every
  compiled entry; the emitted entry reads \<open>volume\<close> as the 32-bit element 2 of that
  array, which on a little-endian IEEE-754 machine is the low half of 50.0, that is 0,
  and the library operators then give \<open>(100 + 50) * 0 / 100 = 0\<close>.
\<close>

theorem C5_demo_interpreter_and_jit:
  "(stod ''100'' = Some 100 \<longrightarrow>
      (\<exists>ctx'. execute stod (create_demo_config hasher) demo_context = Inr ctx'
         \<and> get ctx' T_double ''final_score'' = Inr (VDouble 15)))
   \<and> marshal_inputs (inputs (create_demo_config hasher)) demo_context = Inr ([100, 50], [10])
   \<and> bind_result
        (jit_execute (Some entry) (create_demo_config hasher)
           (set_variable demo_context ''volume'' INT32 (VInt32 v)))
        (\<lambda>(ok, ctx'). get ctx' T_double ''final_score'') =
      (if snd (entry [100, 50] [0]) \<noteq> []
       then Inr (VDouble (snd (entry [100, 50] [0]) ! 0))
       else Inl UndefinedBehaviour)
   \<and> generate_input_unpacks 0 (inputs (create_demo_config hasher)) =
      [''    if (input_data) {'',
       ''        double* arr = static_cast<double*>(input_data);'',
       ''        ctx.price_a = arr[0];'',
       ''    }'', '''',
       ''    if (input_data) {'',
       ''        double* arr = static_cast<double*>(input_data);'',
       ''        ctx.price_b = arr[1];'',
       ''    }'', '''',
       ''    if (input_data) {'',
       ''        int32_t* arr = static_cast<int32_t*>(input_data);'',
       ''        ctx.volume = arr[2];'',
       ''    }'', '''']
   \<and> map double_of_bits [0x4059000000000000, 0x4049000000000000] = [Some 100, Some 50]
   \<and> int32_view [0x4059000000000000, 0x4049000000000000] 2 = Some 0
   \<and> div_op (mul_op (add_op 100 50) (real_of_int (sint (0 :: 32 word)))) 100 = 0"
proof (intro conjI)
  show "stod ''100'' = Some 100 \<longrightarrow>
      (\<exists>ctx'. execute stod (create_demo_config hasher) demo_context = Inr ctx'
         \<and> get ctx' T_double ''final_score'' = Inr (VDouble 15))"
    using demo_interpreter_final_score [of stod hasher] by blast
  show "marshal_inputs (inputs (create_demo_config hasher)) demo_context = Inr ([100, 50], [10])"
    using demo_marshal [of hasher 10] by (simp only: demo_context_volume)
  show "bind_result
        (jit_execute (Some entry) (create_demo_config hasher)
           (set_variable demo_context ''volume'' INT32 (VInt32 v)))
        (\<lambda>(ok, ctx'). get ctx' T_double ''final_score'') =
      (if snd (entry [100, 50] [0]) \<noteq> []
       then Inr (VDouble (snd (entry [100, 50] [0]) ! 0))
       else Inl UndefinedBehaviour)"
    by (rule demo_jit)
  show "map double_of_bits [0x4059000000000000, 0x4049000000000000] = [Some 100, Some 50]"
    by (simp add: demo_bits)
  show "int32_view [0x4059000000000000, 0x4049000000000000] 2 = Some 0"
    by (rule demo_bits)
  show "div_op (mul_op (add_op 100 50) (real_of_int (sint (0 :: 32 word)))) 100 = 0"
    by (simp add: div_op_def mul_op_def add_op_def)
qed (rule demo_emitted_unpack)

theorem C5_demo_interpreter_and_jit_witness:
  "\<exists>ctx'. execute (\<lambda>s. if s = ''100'' then Some 100 else None)
            (create_demo_config (\<lambda>s. word_of_nat (length s))) demo_context = Inr ctx'
      \<and> get ctx' T_double ''final_score'' = Inr (VDouble 15)"
  using C5_demo_interpreter_and_jit
    [of "\<lambda>s. if s = ''100'' then Some 100 else None" "\<lambda>s. word_of_nat (length s)"]
  by simp

section \<open>Claim about the configuration text format\<close>

lemma map_result_map:
  "(\<And>x. x \<in> set xs \<Longrightarrow> f (h x) = Inr (g x)) \<Longrightarrow> map_result f (map h xs) = Inr (map g xs)"
  by (induction xs) (simp_all add: bind_result_def)

lemma string_to_data_type_roundtrip: "string_to_data_type (data_type_to_string t) = t"
  by (cases t) (simp_all add: string_to_data_type_def)

lemma parse_io_field_json: "parse_io_field (io_field_json field) = Inr field"
  by (simp add: parse_io_field_def io_field_json_def json_contains_def json_at_def get_string_def
      get_bool_def bind_result_def string_to_data_type_roundtrip)

lemma parse_io_fields_json:
  "parse_io_fields (JArray (map io_field_json fs)) nm = Inr fs"
  using map_result_map [of fs parse_io_field io_field_json id]
  by (simp add: parse_io_fields_def parse_io_field_json)

lemma parse_arg_string_value:
  "str = [] \<or> hd str \<noteq> CHR ''$'' \<Longrightarrow> arg_value (parse_arg env (JString str)) = str"
  by (auto simp: parse_arg_def Arg_literal_def split: option.splits)

lemma reparsed_arg_value:
  assumes "arg_type a = VARIABLE \<or> arg_value a = [] \<or> hd (arg_value a) \<noteq> CHR ''$''"
  shows "arg_value (reparsed_arg env a) = arg_value a"
proof (cases "arg_type a = VARIABLE")
  case True
  then show ?thesis
    by (simp add: reparsed_arg_def arg_json_def parse_arg_def Arg_variable_def)
next
  case False
  with assms show ?thesis
    by (simp add: reparsed_arg_def arg_json_def parse_arg_string_value)
qed

lemma parse_options_json:
  "parse_options (JObject (map (\<lambda>(key, v). (key, JString v)) opts)) = Inr opts"
proof -
  have "map_result (\<lambda>(key, v). bind_result (get_string v) (\<lambda>s. Inr (key, s)))
      (map (\<lambda>(key, v). (key, JString v)) opts) = Inr (map id opts)"
    by (rule map_result_map) (auto simp: get_string_def bind_result_def)
  then show ?thesis by (simp add: parse_options_def)
qed

lemma parse_step_json: "parse_step env (step_json step) = Inr (reparsed_step env step)"
proof (cases "options step = []")
  case True
  then show ?thesis
    by (simp add: parse_step_def step_json_def json_contains_def json_at_def get_string_def
        bind_result_def parse_args_def reparsed_step_def reparsed_arg_def comp_def)
next
  case False
  then show ?thesis
    by (simp add: parse_step_def step_json_def json_contains_def json_at_def get_string_def
        bind_result_def parse_args_def reparsed_step_def reparsed_arg_def comp_def
        parse_options_json)
qed

lemma parse_steps_json:
  "parse_steps env (JArray (map step_json sts)) = Inr (map (reparsed_step env) sts)"
  using map_result_map [of sts "parse_step env" step_json "reparsed_step env"]
  by (simp add: parse_steps_def parse_step_json)

lemma parse_string_generate_json:
  "parse_string env hasher (generate_json config) =
     Inr (snd (compute_fingerprint hasher
       \<lparr>name = name config, steps = map (reparsed_step env) (steps config),
        inputs = inputs config, outputs = [], variables = variables config,
        fingerprint = []\<rparr>))"
  by (simp add: parse_string_def generate_json_def json_contains_def json_at_def get_string_def
      bind_result_def parse_io_fields_json parse_steps_json)

lemma fingerprint_compute_fingerprint:
  "fingerprint (snd (compute_fingerprint hasher config)) = fst (compute_fingerprint hasher config)"
  by (simp add: compute_fingerprint_def Let_def)

lemma reparsed_domain:
  assumes "literal_args_plain config"
  shows "fingerprint_domain
      \<lparr>name = name config, steps = map (reparsed_step env) (steps config),
        inputs = inputs config, outputs = [], variables = variables config,
        fingerprint = []\<rparr> = fingerprint_domain config"
proof -
  have "map arg_value (args (reparsed_step env step)) = map arg_value (args step)"
    if "step \<in> set (steps config)" for step
  proof -
    from assms that have "list_all (\<lambda>a. arg_type a = VARIABLE \<or> arg_value a = []
          \<or> hd (arg_value a) \<noteq> CHR ''$'') (args step)"
      by (simp add: literal_args_plain_def list_all_iff)
    then show ?thesis
      by (simp add: reparsed_step_def list_all_iff reparsed_arg_value)
  qed
  then have "map (\<lambda>step. (op_name step, map arg_value (args step), output_var step))
        (map (reparsed_step env) (steps config)) =
      map (\<lambda>step. (op_name step, map arg_value (args step), output_var step)) (steps config)"
    by (simp add: reparsed_step_def)
  then show ?thesis
    by (simp add: fingerprint_domain_def)
qed

text \<open>
  Against claim C9 as stated: a literal argument whose text is \<^verbatim>\<open>$x\<close> is written as the
  string \<^verbatim>\<open>$x\<close> and read back as a reference to the variable \<^verbatim>\<open>x\<close>; the text the
  fingerprint hashes changes, and with the length of the text as hash function the two
  fingerprints are \<^verbatim>\<open>e\<close> and \<^verbatim>\<open>d\<close>.
\<close>

theorem C9_dollar_literal_counterexample:
  "\<forall>env. \<exists>c'. parse_string env (\<lambda>s. word_of_nat (length s)) (generate_json config_dollar_literal) = Inr c'
     \<and> fingerprint_text c' = ''p||add(x)->y;''
     \<and> fingerprint_text config_dollar_literal = ''p||add($x)->y;''
     \<and> fingerprint c' = ''d''
     \<and> fst (compute_fingerprint (\<lambda>s. word_of_nat (length s)) config_dollar_literal) = ''e''"
proof
  fix env
  have arg: "reparsed_arg env \<lparr>arg_value = ''$x'', arg_type = LITERAL, arg_data_type = STRING\<rparr> =
      \<lparr>arg_value = ''x'', arg_type = VARIABLE, arg_data_type = UNKNOWN\<rparr>"
    by (simp add: reparsed_arg_def arg_json_def parse_arg_def Arg_variable_def)
  have hex: "to_hex 13 = ''d''" "to_hex 14 = ''e''"
    by (simp_all add: to_hex.simps hex_digit_def)
  show "\<exists>c'. parse_string env (\<lambda>s. word_of_nat (length s)) (generate_json config_dollar_literal) = Inr c'
     \<and> fingerprint_text c' = ''p||add(x)->y;''
     \<and> fingerprint_text config_dollar_literal = ''p||add($x)->y;''
     \<and> fingerprint c' = ''d''
     \<and> fst (compute_fingerprint (\<lambda>s. word_of_nat (length s)) config_dollar_literal) = ''e''"
    by (simp add: parse_string_generate_json config_dollar_literal_def reparsed_step_def arg
        compute_fingerprint_def Let_def fingerprint_text_def step_text_def Arg_variable_def
        Arg_literal_def hex)
qed

text \<open>
  Claim C9, amended. For every configuration none of whose literal arguments begins with
  the character \<^verbatim>\<open>$\<close>, writing it with \<^verbatim>\<open>generate_json\<close> and reading the document
  back with \<^verbatim>\<open>parse_string\<close> succeeds and gives a configuration whose fingerprint is the
  one \<^verbatim>\<open>compute_fingerprint\<close> gives the original, for every hash function.
\<close>

theorem C9_roundtrip_fingerprint:
  "literal_args_plain config \<longrightarrow>
     (\<exists>c'. parse_string env hasher (generate_json config) = Inr c'
        \<and> fingerprint c' = fst (compute_fingerprint hasher config))"
proof
  assume plain_args: "literal_args_plain config"
  let ?parsed = "\<lparr>name = name config, steps = map (reparsed_step env) (steps config),
        inputs = inputs config, outputs = [], variables = variables config,
        fingerprint = []\<rparr>"
  have "fingerprint_text ?parsed = fingerprint_text config"
    by (rule fingerprint_text_domain) (rule reparsed_domain [OF plain_args])
  then have "fst (compute_fingerprint hasher ?parsed) = fst (compute_fingerprint hasher config)"
    by (simp add: compute_fingerprint_eq_iff)
  then show "\<exists>c'. parse_string env hasher (generate_json config) = Inr c'
        \<and> fingerprint c' = fst (compute_fingerprint hasher config)"
    by (simp add: parse_string_generate_json fingerprint_compute_fingerprint)
qed

theorem C9_roundtrip_fingerprint_witness:
  "literal_args_plain config_other_tags
   \<and> (\<exists>c'. parse_string example_env (\<lambda>s. word_of_nat (length s))
               (generate_json config_other_tags) = Inr c'
          \<and> fingerprint c' =
              fst (compute_fingerprint (\<lambda>s. word_of_nat (length s)) config_other_tags))"
proof -
  have h: "literal_args_plain config_other_tags"
    by (simp add: literal_args_plain_def config_other_tags_def Arg_literal_def)
  with C9_roundtrip_fingerprint [of config_other_tags example_env "\<lambda>s. word_of_nat (length s)"]
  show ?thesis by simp
qed

end
